theory Spec2Isabelle
  imports Main "HOL-Library.Word"
begin

unbundle bit_operations_syntax

text \<open>
  A model of the display-configuration library \<^verbatim>\<open>index.js\<close>: the extractor that joins
  path, mode and name records into logical display entries, the snapshot taken for a
  later restore, the restore with its fallback to toggling, the toggle executor and the
  update of the change-notification cache.

  The native addon is the environment. What it answers to a call is an argument of the
  function that makes the call, and the calls that change the display state are returned
  as a list next to the result. A rejected promise is an \<open>Inl\<close> value.
\<close>

section \<open>Values crossing the native boundary\<close>

text \<open>
  The library in \<^verbatim>\<open>index.js\<close> sits on top of a native addon. Everything the addon hands
  over is a JavaScript value. Fields that the library only copies or tests for truthiness
  (\<^verbatim>\<open>outputTechnology\<close>, \<^verbatim>\<open>rotation\<close>, \<^verbatim>\<open>scaling\<close>, the mode payloads) are kept as
  loosely typed values; fields it compares with \<^verbatim>\<open>===\<close> or uses as indices get the type
  the comparison needs.
\<close>

datatype jsval =
    JSUndefined
  | JSNumber int
  | JSString string
  | JSObject "(string \<times> jsval) list"

text \<open>JavaScript truthiness, as used by \<^verbatim>\<open>&&\<close> inside the \<^verbatim>\<open>find\<close> predicate.\<close>

fun truthy :: "jsval \<Rightarrow> bool" where
  "truthy JSUndefined = False"
| "truthy (JSNumber n) = (n \<noteq> 0)"
| "truthy (JSString s) = (s \<noteq> [])"
| "truthy (JSObject fields) = True"

type_synonym buffer = "8 word list"

record adapter_id =
  LowPart :: int
  HighPart :: int

record config_id =
  cfg_adapterId :: adapter_id
  cfg_id :: int

section \<open>Raw records returned by the query primitive\<close>

text \<open>
  \<^verbatim>\<open>modeInfoIdx\<close> is an index into \<^verbatim>\<open>modeArray\<close>; \<open>None\<close> stands for a field that is
  missing altogether. \<^verbatim>\<open>flags\<close> is the 32-bit flag word of the path.
\<close>

record source_info =
  src_adapterId :: adapter_id
  src_id :: int
  src_modeInfoIdx :: "nat option"

record target_info =
  tgt_adapterId :: adapter_id
  tgt_id :: int
  tgt_outputTechnology :: jsval
  tgt_rotation :: jsval
  tgt_scaling :: jsval
  tgt_modeInfoIdx :: "nat option"

record path_value =
  flags :: "32 word"
  sourceInfo :: source_info
  targetInfo :: target_info

record path_record =
  path_value :: path_value
  path_buffer :: buffer

text \<open>
  A mode record is tagged by \<^verbatim>\<open>infoType\<close>: \<^verbatim>\<open>"source"\<close> carries \<^verbatim>\<open>sourceMode\<close>,
  \<^verbatim>\<open>"target"\<close> carries \<^verbatim>\<open>targetMode.targetVideoSignalInfo\<close>; any other tag carries
  nothing the library reads.
\<close>

datatype mode_value =
    is_source: SourceModeValue jsval
  | is_target: TargetModeValue jsval
  | OtherModeValue

record mode_record =
  mode_value :: mode_value
  mode_buffer :: buffer

record name_record =
  n_adapterId :: adapter_id
  n_id :: int
  n_outputTechnology :: jsval
  monitorFriendlyDeviceName :: string
  monitorDevicePath :: string

record raw_config =
  pathArray :: "path_record list"
  modeArray :: "mode_record list"
  nameArray :: "name_record list"

section \<open>Errors and the query primitive\<close>

datatype error =
    Win32Error int
  | TypeError
  | ListenerError string

text \<open>
  What one call of \<^verbatim>\<open>addon.win32_queryDisplayConfig\<close> does: it declines to run
  (returns a falsy value), or it runs and calls back with an error code, or with a result.
\<close>

datatype query_result =
    QueryNotRun
  | QueryFailed int
  | QuerySucceeded raw_config

text \<open>
  \<^verbatim>\<open>queryDisplayConfig\<close>: rejects with \<^verbatim>\<open>Win32Error\<close> on an error code, resolves with the
  result, and resolves with \<^verbatim>\<open>undefined\<close> (\<open>None\<close>) when the addon did not run.
\<close>

fun queryDisplayConfig :: "query_result \<Rightarrow> error + raw_config option" where
  "queryDisplayConfig QueryNotRun = Inr None"
| "queryDisplayConfig (QueryFailed code) = Inl (Win32Error code)"
| "queryDisplayConfig (QuerySucceeded result) = Inr (Some result)"

section \<open>The extractor\<close>

record logical_display_entry =
  displayName :: string
  devicePath :: string
  sourceConfigId :: config_id
  targetConfigId :: config_id
  inUse :: bool
  outputTechnology :: jsval
  rotation :: jsval
  scaling :: jsval
  sourceMode :: jsval
  pathBuffer :: buffer
  sourceModeBuffer :: buffer
  targetVideoSignalInfo :: "jsval option"
  targetModeBuffer :: "buffer option"

text \<open>
  \<^verbatim>\<open>config.modeArray[idx]\<close>: reading a JavaScript array at a missing or out-of-range
  index gives \<^verbatim>\<open>undefined\<close> and does not throw.
\<close>

definition array_get :: "'a list \<Rightarrow> nat option \<Rightarrow> 'a option" where
  "array_get xs idx =
     (case idx of
        None \<Rightarrow> None
      | Some i \<Rightarrow> if i < length xs then Some (xs ! i) else None)"

text \<open>The predicate handed to \<^verbatim>\<open>config.nameArray.find\<close> (lines 57--63).\<close>

definition name_matches :: "target_info \<Rightarrow> name_record \<Rightarrow> bool" where
  "name_matches t n \<longleftrightarrow>
     LowPart (n_adapterId n) = LowPart (tgt_adapterId t) \<and>
     HighPart (n_adapterId n) = HighPart (tgt_adapterId t) \<and>
     n_id n = tgt_id t \<and>
     truthy (n_outputTechnology n) \<and>
     truthy (tgt_outputTechnology t) \<and>
     length (monitorDevicePath n) > 0"

text \<open>
  The target-derived fields are attached only when a target mode was found and is tagged
  \<^verbatim>\<open>"target"\<close> (lines 101--108).
\<close>

fun attach_target :: "mode_record option \<Rightarrow> logical_display_entry \<Rightarrow> logical_display_entry" where
  "attach_target None output = output"
| "attach_target (Some targetMode) output =
     (case mode_value targetMode of
        TargetModeValue info \<Rightarrow>
          output\<lparr>targetVideoSignalInfo := Some info,
                 targetModeBuffer := Some (mode_buffer targetMode)\<rparr>
      | _ \<Rightarrow> output)"

text \<open>
  One iteration of the loop over \<^verbatim>\<open>config.pathArray\<close> (lines 29--111): \<open>None\<close> is
  \<^verbatim>\<open>continue\<close>, \<open>Some output\<close> is \<^verbatim>\<open>ret.push(output)\<close>.
\<close>

definition extract_path :: "raw_config \<Rightarrow> path_record \<Rightarrow> logical_display_entry option" where
  "extract_path config p =
     (let v = path_value p;
          inUse0 = (flags v AND 1 \<noteq> 0);
          s = sourceInfo v;
          t = targetInfo v;
          sourceConfigId0 = \<lparr>cfg_adapterId = src_adapterId s, cfg_id = src_id s\<rparr>;
          targetConfigId0 = \<lparr>cfg_adapterId = tgt_adapterId t, cfg_id = tgt_id t\<rparr>
      in case find (name_matches t) (nameArray config) of
           None \<Rightarrow> None
         | Some displayNameEntry \<Rightarrow>
             (let sourceMode0 = array_get (modeArray config) (src_modeInfoIdx s);
                  targetMode0 = array_get (modeArray config) (tgt_modeInfoIdx t)
              in case sourceMode0 of
                   None \<Rightarrow> None
                 | Some sourceMode1 \<Rightarrow>
                     (let inUse1 = (if targetMode0 = None then False else inUse0)
                      in case mode_value sourceMode1 of
                           SourceModeValue sourceModeValue \<Rightarrow>
                             Some (attach_target targetMode0
                               \<lparr>displayName = monitorFriendlyDeviceName displayNameEntry,
                                devicePath = monitorDevicePath displayNameEntry,
                                sourceConfigId = sourceConfigId0,
                                targetConfigId = targetConfigId0,
                                inUse = inUse1,
                                outputTechnology = tgt_outputTechnology t,
                                rotation = tgt_rotation t,
                                scaling = tgt_scaling t,
                                sourceMode = sourceModeValue,
                                pathBuffer = path_buffer p,
                                sourceModeBuffer = mode_buffer sourceMode1,
                                targetVideoSignalInfo = None,
                                targetModeBuffer = None\<rparr>)
                         | _ \<Rightarrow> None)))"

fun extract_loop ::
  "raw_config \<Rightarrow> path_record list \<Rightarrow> logical_display_entry list \<Rightarrow> logical_display_entry list"
where
  "extract_loop config [] ret = ret"
| "extract_loop config (p # ps) ret =
     (case extract_path config p of
        None \<Rightarrow> extract_loop config ps ret
      | Some output \<Rightarrow> extract_loop config ps (ret @ [output]))"

text \<open>
  \<^verbatim>\<open>extractDisplayConfig\<close>: a rejected query propagates; a query that resolved with
  \<^verbatim>\<open>undefined\<close> makes \<^verbatim>\<open>config.pathArray\<close> throw a \<^verbatim>\<open>TypeError\<close>.
\<close>

definition extractDisplayConfig :: "query_result \<Rightarrow> error + logical_display_entry list" where
  "extractDisplayConfig q =
     (case queryDisplayConfig q of
        Inl e \<Rightarrow> Inl e
      | Inr None \<Rightarrow> Inl TypeError
      | Inr (Some config) \<Rightarrow> Inr (extract_loop config (pathArray config) []))"

section \<open>The toggle executor\<close>

text \<open>
  The two native entry points that change the display state. Each call is recorded with
  its arguments; \<open>addon_result\<close> is what the addon does with the call: it declines to run,
  or it runs and calls back with an error code (\<open>0\<close> is success).
\<close>

record apply_record =
  ar_sourceConfigId :: config_id
  ar_targetConfigId :: config_id
  ar_pathBuffer :: buffer
  ar_sourceModeBuffer :: buffer
  ar_targetModeBuffer :: buffer

datatype addon_call =
    is_restore_call: RestoreDisplayConfigCall "apply_record list" bool
  | is_toggle_call: ToggleEnabledDisplaysCall "config_id list" "config_id list" bool

datatype addon_result =
    NotRun
  | Completed int

type_synonym outcome = "addon_call list \<times> (error + unit)"

definition win32_toggleEnabledDisplays ::
  "config_id list \<Rightarrow> config_id list \<Rightarrow> bool \<Rightarrow> addon_result \<Rightarrow> outcome"
where
  "win32_toggleEnabledDisplays enable disable persistent r =
     ([ToggleEnabledDisplaysCall enable disable persistent],
      case r of
        NotRun \<Rightarrow> Inr ()
      | Completed errorCode \<Rightarrow> if errorCode = 0 then Inr () else Inl (Win32Error errorCode))"

record toggle_args =
  persistent :: bool
  enable :: "string list option"
  disable :: "string list option"

text \<open>
  \<^verbatim>\<open>Array.isArray(paths) && paths.indexOf(devicePath) >= 0\<close>; \<open>None\<close> is an argument that
  is not an array.
\<close>

fun lists_path :: "string list option \<Rightarrow> string \<Rightarrow> bool" where
  "lists_path None devicePath0 = False"
| "lists_path (Some paths) devicePath0 = (devicePath0 \<in> set paths)"

fun toggle_loop ::
  "string list option \<Rightarrow> string list option \<Rightarrow> logical_display_entry list \<Rightarrow>
   config_id list \<times> config_id list \<Rightarrow> config_id list \<times> config_id list"
where
  "toggle_loop enablePaths disablePaths [] (enable0, disable0) = (enable0, disable0)"
| "toggle_loop enablePaths disablePaths (entry # displayConfig) (enable0, disable0) =
     (let enable1 = (if lists_path enablePaths (devicePath entry)
                     then enable0 @ [targetConfigId entry] else enable0);
          disable1 = (if lists_path disablePaths (devicePath entry)
                      then disable0 @ [targetConfigId entry] else disable0)
      in toggle_loop enablePaths disablePaths displayConfig (enable1, disable1))"

text \<open>
  \<^verbatim>\<open>toggleEnabledDisplays\<close> reads the live configuration itself (\<open>q\<close> is the answer of
  the query primitive to that read) and then calls the native toggle (\<open>r\<close> is the
  addon's answer). A failed extraction rejects before the addon is called.
\<close>

definition toggleEnabledDisplays :: "toggle_args \<Rightarrow> query_result \<Rightarrow> addon_result \<Rightarrow> outcome" where
  "toggleEnabledDisplays args q r =
     (case extractDisplayConfig q of
        Inl e \<Rightarrow> ([], Inl e)
      | Inr displayConfig \<Rightarrow>
          (case toggle_loop (enable args) (disable args) displayConfig ([], []) of
             (enable0, disable0) \<Rightarrow>
               win32_toggleEnabledDisplays enable0 disable0 (persistent args) r))"

section \<open>Sets\<close>

text \<open>
  A JavaScript \<^verbatim>\<open>Set\<close> of strings: its elements in insertion order, each once.
\<close>

type_synonym js_set = "string list"

definition Set_has :: "js_set \<Rightarrow> string \<Rightarrow> bool" where
  "Set_has s x \<longleftrightarrow> x \<in> set s"

definition Set_add :: "js_set \<Rightarrow> string \<Rightarrow> js_set" where
  "Set_add s x = (if x \<in> set s then s else s @ [x])"

definition new_Set :: "string list \<Rightarrow> js_set" where
  "new_Set xs = foldl Set_add [] xs"

text \<open>\<^verbatim>\<open>setSubtract(left, right)\<close>: the array of the elements of \<open>left\<close> not in \<open>right\<close>.\<close>

definition setSubtract :: "js_set \<Rightarrow> js_set \<Rightarrow> string list" where
  "setSubtract left right =
     foldl (\<lambda>ret entry. if \<not> Set_has right entry then Set_add ret entry else ret) [] left"

section \<open>Capturing a configuration for restoration\<close>

record restoration_record =
  rr_devicePath :: string
  rr_pathBuffer :: string
  rr_sourceModeBuffer :: string
  rr_targetModeBuffer :: string

text \<open>
  The loop of \<^verbatim>\<open>displayConfigForRestoration\<close> (lines 176--192). \<open>toBase64\<close> stands for
  \<^verbatim>\<open>Buffer.prototype.toString("base64")\<close> of the runtime.
\<close>

fun restoration_loop ::
  "(buffer \<Rightarrow> string) \<Rightarrow> logical_display_entry list \<Rightarrow> restoration_record list \<Rightarrow>
   restoration_record list"
where
  "restoration_loop toBase64 [] ret = ret"
| "restoration_loop toBase64 (entry # currentConfig) ret =
     (if \<not> inUse entry \<or> targetModeBuffer entry = None
      then restoration_loop toBase64 currentConfig ret
      else restoration_loop toBase64 currentConfig
             (ret @ [\<lparr>rr_devicePath = devicePath entry,
                      rr_pathBuffer = toBase64 (pathBuffer entry),
                      rr_sourceModeBuffer = toBase64 (sourceModeBuffer entry),
                      rr_targetModeBuffer = toBase64 (the (targetModeBuffer entry))\<rparr>]))"

definition displayConfigForRestoration ::
  "(buffer \<Rightarrow> string) \<Rightarrow> query_result \<Rightarrow> error + restoration_record list"
where
  "displayConfigForRestoration toBase64 q =
     (case extractDisplayConfig q of
        Inl e \<Rightarrow> Inl e
      | Inr currentConfig \<Rightarrow> Inr (restoration_loop toBase64 currentConfig []))"

section \<open>Restoring a configuration\<close>

text \<open>
  An item of a restore request is either a full record, with its three base64 buffers
  (the display is wanted enabled), or a device path alone, with no \<^verbatim>\<open>targetModeBuffer\<close>
  (the display is wanted disabled).
\<close>

datatype restore_item =
    EnabledItem string string string string
  | DisabledItem string

fun item_devicePath :: "restore_item \<Rightarrow> string" where
  "item_devicePath (EnabledItem devicePath0 pathBuffer0 sourceModeBuffer0 targetModeBuffer0) =
     devicePath0"
| "item_devicePath (DisabledItem devicePath0) = devicePath0"

fun item_targetModeBuffer :: "restore_item \<Rightarrow> string option" where
  "item_targetModeBuffer (EnabledItem devicePath0 pathBuffer0 sourceModeBuffer0 targetModeBuffer0) =
     Some targetModeBuffer0"
| "item_targetModeBuffer (DisabledItem devicePath0) = None"

record restore_args =
  config :: "restore_item list"
  restore_persistent :: bool

definition win32_restoreDisplayConfig ::
  "apply_record list \<Rightarrow> bool \<Rightarrow> addon_result \<Rightarrow> outcome"
where
  "win32_restoreDisplayConfig configs persistent0 r =
     ([RestoreDisplayConfigCall configs persistent0],
      case r of
        NotRun \<Rightarrow> Inr ()
      | Completed errorCode \<Rightarrow> if errorCode = 0 then Inr () else Inl (Win32Error errorCode))"

text \<open>
  \<^verbatim>\<open>devicePathLookupForEnabledDisplayConfig\<close> (lines 158--170). The object \<^verbatim>\<open>ret\<close> is a
  map from device path to entry. Its keys are monitor device paths reported by the
  operating system, and the exact restore reads it only at paths of the live set; such
  paths are taken to be distinct from the property names every JavaScript object inherits
  (\<^verbatim>\<open>toString\<close>, \<^verbatim>\<open>constructor\<close>, ...).
\<close>

fun lookup_loop ::
  "logical_display_entry list \<Rightarrow> (string \<rightharpoonup> logical_display_entry) \<Rightarrow>
   (string \<rightharpoonup> logical_display_entry)"
where
  "lookup_loop [] ret = ret"
| "lookup_loop (entry # conf) ret =
     (if inUse entry \<and> targetModeBuffer entry = None then lookup_loop conf ret
      else if ret (devicePath entry) \<noteq> None then lookup_loop conf ret
      else lookup_loop conf (ret(devicePath entry \<mapsto> entry)))"

definition devicePathLookupForEnabledDisplayConfig ::
  "logical_display_entry list \<Rightarrow> (string \<rightharpoonup> logical_display_entry)"
where
  "devicePathLookupForEnabledDisplayConfig conf = lookup_loop conf Map.empty"

text \<open>
  The loop building \<^verbatim>\<open>coercedState\<close> (lines 243--260). \<open>fromBase64\<close> stands for
  \<^verbatim>\<open>Buffer.from(s, "base64")\<close> of the runtime.
\<close>

fun coerce_loop ::
  "(string \<Rightarrow> buffer) \<Rightarrow> (string \<rightharpoonup> logical_display_entry) \<Rightarrow> restore_item list \<Rightarrow>
   apply_record list \<Rightarrow> apply_record list"
where
  "coerce_loop fromBase64 pathLookup [] coercedState = coercedState"
| "coerce_loop fromBase64 pathLookup (DisabledItem devicePath0 # rest) coercedState =
     coerce_loop fromBase64 pathLookup rest coercedState"
| "coerce_loop fromBase64 pathLookup
     (EnabledItem devicePath0 pathBuffer0 sourceModeBuffer0 targetModeBuffer0 # rest) coercedState =
     (case pathLookup devicePath0 of
        None \<Rightarrow> coerce_loop fromBase64 pathLookup rest coercedState
      | Some currentConfigEntry \<Rightarrow>
          coerce_loop fromBase64 pathLookup rest
            (coercedState @
             [\<lparr>ar_sourceConfigId = sourceConfigId currentConfigEntry,
               ar_targetConfigId = targetConfigId currentConfigEntry,
               ar_pathBuffer = fromBase64 pathBuffer0,
               ar_sourceModeBuffer = fromBase64 sourceModeBuffer0,
               ar_targetModeBuffer = fromBase64 targetModeBuffer0\<rparr>]))"

text \<open>
  One pass of the fallback (lines 272--277 for \<^verbatim>\<open>enable\<close>, 278--283 for \<^verbatim>\<open>disable\<close>):
  a path is pushed when it has not been seen and is in the live set; the state is the
  pair of \<^verbatim>\<open>seen\<close> and the list being filled.
\<close>

fun toggle_pass :: "js_set \<Rightarrow> string list \<Rightarrow> js_set \<times> string list \<Rightarrow> js_set \<times> string list" where
  "toggle_pass givenAsSet [] (seen, pushed) = (seen, pushed)"
| "toggle_pass givenAsSet (devicePathName # rest) (seen, pushed) =
     (if \<not> Set_has seen devicePathName \<and> Set_has givenAsSet devicePathName
      then toggle_pass givenAsSet rest (Set_add seen devicePathName, pushed @ [devicePathName])
      else toggle_pass givenAsSet rest (seen, pushed))"

definition devicePathNames :: "restore_args \<Rightarrow> string list" where
  "devicePathNames args =
     map item_devicePath (filter (\<lambda>item. item_targetModeBuffer item \<noteq> None) (config args))"

definition notInUse :: "restore_args \<Rightarrow> string list" where
  "notInUse args =
     map item_devicePath (filter (\<lambda>item. item_targetModeBuffer item = None) (config args))"

definition missingEnabled :: "restore_args \<Rightarrow> logical_display_entry list \<Rightarrow> string list" where
  "missingEnabled args currentConfig =
     setSubtract (new_Set (devicePathNames args)) (new_Set (map devicePath currentConfig))"

definition fallback_enable :: "restore_args \<Rightarrow> logical_display_entry list \<Rightarrow> string list" where
  "fallback_enable args currentConfig =
     snd (toggle_pass (new_Set (map devicePath currentConfig)) (devicePathNames args) ([], []))"

definition fallback_disable :: "restore_args \<Rightarrow> logical_display_entry list \<Rightarrow> string list" where
  "fallback_disable args currentConfig =
     (let givenAsSet = new_Set (map devicePath currentConfig);
          seen = fst (toggle_pass givenAsSet (devicePathNames args) ([], []))
      in snd (toggle_pass givenAsSet (notInUse args) (seen, [])))"

text \<open>
  \<^verbatim>\<open>restoreDisplayConfig\<close> (lines 216--291). \<open>q1\<close> answers its own read of the live
  configuration, \<open>q2\<close> the fresh read made by \<^verbatim>\<open>toggleEnabledDisplays\<close> when the
  fallback is taken, and \<open>r\<close> is the addon's answer to the one native call made.
\<close>

definition restoreDisplayConfig ::
  "(string \<Rightarrow> buffer) \<Rightarrow> restore_args \<Rightarrow> query_result \<Rightarrow> query_result \<Rightarrow> addon_result \<Rightarrow> outcome"
where
  "restoreDisplayConfig fromBase64 args q1 q2 r =
     (case extractDisplayConfig q1 of
        Inl e \<Rightarrow> ([], Inl e)
      | Inr currentConfig \<Rightarrow>
          if length (missingEnabled args currentConfig) = 0
          then win32_restoreDisplayConfig
                 (coerce_loop fromBase64 (devicePathLookupForEnabledDisplayConfig currentConfig)
                    (config args) [])
                 (restore_persistent args) r
          else toggleEnabledDisplays
                 \<lparr>persistent = restore_persistent args,
                  enable = Some (fallback_enable args currentConfig),
                  disable = Some (fallback_disable args currentConfig)\<rparr> q2 r)"

section \<open>The change-notification cache\<close>

text \<open>
  The module state: \<^verbatim>\<open>currentDisplayConfig\<close> (\<open>None\<close> while still \<^verbatim>\<open>undefined\<close>) and the
  set \<^verbatim>\<open>displayChangeCallbacks\<close> in insertion order. A listener is identified by a number.
  A call of a listener is recorded with its arguments: \<^verbatim>\<open>callback(null, config)\<close> or
  \<^verbatim>\<open>callback(e)\<close>.
\<close>

type_synonym callback = nat

record notifier_state =
  currentDisplayConfig :: "logical_display_entry list option"
  displayChangeCallbacks :: "callback list"

datatype callback_call =
    CalledWithConfig callback "logical_display_entry list"
  | CalledWithError callback error

text \<open>
  Listeners are code of the caller. What a listener does with a call is part of the
  environment: \<open>throws call = Some e\<close> when the listener throws \<open>e\<close> on that call, \<open>None\<close>
  when it returns. What a listener does besides returning or throwing is not modelled.
\<close>

type_synonym listeners = "callback_call \<Rightarrow> error option"

text \<open>
  The loop \<^verbatim>\<open>for (const callback of Array.from(displayChangeCallbacks))\<close>, with the call
  made on each callback as a parameter. A listener that throws ends the loop: the calls
  made so far are returned with the error thrown.
\<close>

fun notify_loop ::
  "listeners \<Rightarrow> (callback \<Rightarrow> callback_call) \<Rightarrow> callback list \<Rightarrow> callback_call list \<Rightarrow>
   callback_call list \<times> error option"
where
  "notify_loop throws call [] calls = (calls, None)"
| "notify_loop throws call (callback # rest) calls =
     (case throws (call callback) of
        None \<Rightarrow> notify_loop throws call rest (calls @ [call callback])
      | Some e \<Rightarrow> (calls @ [call callback], Some e))"

text \<open>
  The \<^verbatim>\<open>catch (e)\<close> block (lines 302--306): every callback is called with \<open>e\<close>; an error
  thrown by a listener here is not caught, and the promise of the update is rejected
  with it.
\<close>

definition catch_block ::
  "listeners \<Rightarrow> notifier_state \<Rightarrow> error \<Rightarrow> callback_call list \<Rightarrow>
   notifier_state \<times> callback_call list \<times> (error + unit)"
where
  "catch_block throws st e calls =
     (case notify_loop throws (\<lambda>callback. CalledWithError callback e)
             (displayChangeCallbacks st) calls of
        (calls1, None) \<Rightarrow> (st, calls1, Inr ())
      | (calls1, Some e1) \<Rightarrow> (st, calls1, Inl e1))"

text \<open>
  \<^verbatim>\<open>updateDisplayStateAndNotifyCallbacks\<close> (lines 296--307). The \<^verbatim>\<open>try\<close> block holds the
  awaited extraction, the assignment to \<^verbatim>\<open>currentDisplayConfig\<close> and the loop over the
  callbacks: a rejected extraction goes to the \<^verbatim>\<open>catch\<close> block before the assignment,
  and so does an error thrown by a listener in the loop, after the assignment. The
  result is the new state, the calls made on the listeners in order, and whether the
  promise of the update resolves.
\<close>

definition updateDisplayStateAndNotifyCallbacks ::
  "listeners \<Rightarrow> notifier_state \<Rightarrow> query_result \<Rightarrow>
   notifier_state \<times> callback_call list \<times> (error + unit)"
where
  "updateDisplayStateAndNotifyCallbacks throws st q =
     (case extractDisplayConfig q of
        Inl e \<Rightarrow> catch_block throws st e []
      | Inr extracted \<Rightarrow>
          (let st1 = st\<lparr>currentDisplayConfig := Some extracted\<rparr>
           in case notify_loop throws (\<lambda>callback. CalledWithConfig callback extracted)
                     (displayChangeCallbacks st1) [] of
                (calls, None) \<Rightarrow> (st1, calls, Inr ())
              | (calls, Some e) \<Rightarrow> catch_block throws st1 e calls))"

section \<open>The apply record of one request item\<close>

text \<open>
  What the exact restore is described to submit for one item of the request: nothing for
  an item without \<^verbatim>\<open>targetModeBuffer\<close> or whose device path is not in the lookup,
  otherwise the identifiers of the live entry with the decoded stored buffers. The loop
  \<open>coerce_loop\<close> is compared with it below.
\<close>

fun coerce_item ::
  "(string \<Rightarrow> buffer) \<Rightarrow> (string \<rightharpoonup> logical_display_entry) \<Rightarrow> restore_item \<Rightarrow> apply_record option"
where
  "coerce_item fromBase64 pathLookup (DisabledItem dp) = None"
| "coerce_item fromBase64 pathLookup (EnabledItem dp pb smb tmb) =
     map_option (\<lambda>live. \<lparr>ar_sourceConfigId = sourceConfigId live,
               ar_targetConfigId = targetConfigId live,
               ar_pathBuffer = fromBase64 pb,
               ar_sourceModeBuffer = fromBase64 smb,
               ar_targetModeBuffer = fromBase64 tmb\<rparr>) (pathLookup dp)"

section \<open>Sample configurations\<close>

text \<open>
  Concrete inputs on which the properties below are exercised: one adapter, two named
  monitors \<open>A\<close> and \<open>B\<close>, and a mode array holding a source and a target mode for each.
\<close>

definition adapterA :: adapter_id where
  "adapterA = \<lparr>LowPart = 4711, HighPart = 0\<rparr>"

definition sample_path ::
  "32 word \<Rightarrow> nat option \<Rightarrow> int \<Rightarrow> jsval \<Rightarrow> nat option \<Rightarrow> buffer \<Rightarrow> path_record"
where
  "sample_path fl srcIdx targetId tech tgtIdx buf =
     \<lparr>path_value =
        \<lparr>flags = fl,
         sourceInfo = \<lparr>src_adapterId = adapterA, src_id = targetId - 1, src_modeInfoIdx = srcIdx\<rparr>,
         targetInfo = \<lparr>tgt_adapterId = adapterA, tgt_id = targetId, tgt_outputTechnology = tech,
                       tgt_rotation = JSNumber 1, tgt_scaling = JSNumber 128,
                       tgt_modeInfoIdx = tgtIdx\<rparr>\<rparr>,
      path_buffer = buf\<rparr>"

definition sample_name :: "int \<Rightarrow> jsval \<Rightarrow> string \<Rightarrow> string \<Rightarrow> name_record" where
  "sample_name targetId tech friendly path =
     \<lparr>n_adapterId = adapterA, n_id = targetId, n_outputTechnology = tech,
      monitorFriendlyDeviceName = friendly, monitorDevicePath = path\<rparr>"

definition sample_modes :: "mode_record list" where
  "sample_modes =
     [\<lparr>mode_value = SourceModeValue (JSObject [(''width'', JSNumber 1920)]), mode_buffer = [1]\<rparr>,
      \<lparr>mode_value = TargetModeValue (JSObject [(''vSyncFreq'', JSNumber 60)]), mode_buffer = [2]\<rparr>,
      \<lparr>mode_value = SourceModeValue (JSObject [(''width'', JSNumber 1280)]), mode_buffer = [3]\<rparr>,
      \<lparr>mode_value = TargetModeValue (JSObject [(''vSyncFreq'', JSNumber 75)]), mode_buffer = [4]\<rparr>]"

definition nameA :: name_record where
  "nameA = sample_name 1 (JSNumber 5) ''Monitor A'' ''DISPLAY#A''"

definition nameB :: name_record where
  "nameB = sample_name 2 (JSNumber 10) ''Monitor B'' ''DISPLAY#B''"

definition sample_names :: "name_record list" where
  "sample_names = [nameA, nameB]"

definition pathA :: path_record where
  "pathA = sample_path 1 (Some 0) 1 (JSNumber 5) (Some 1) [10]"

definition pathB :: path_record where
  "pathB = sample_path 1 (Some 2) 2 (JSNumber 10) (Some 3) [11]"

definition sample_raw :: "path_record list \<Rightarrow> raw_config" where
  "sample_raw paths = \<lparr>pathArray = paths, modeArray = sample_modes, nameArray = sample_names\<rparr>"

definition entryA :: logical_display_entry where
  "entryA =
     \<lparr>displayName = ''Monitor A'', devicePath = ''DISPLAY#A'',
      sourceConfigId = \<lparr>cfg_adapterId = adapterA, cfg_id = 0\<rparr>,
      targetConfigId = \<lparr>cfg_adapterId = adapterA, cfg_id = 1\<rparr>,
      inUse = True, outputTechnology = JSNumber 5, rotation = JSNumber 1,
      scaling = JSNumber 128, sourceMode = JSObject [(''width'', JSNumber 1920)],
      pathBuffer = [10], sourceModeBuffer = [1],
      targetVideoSignalInfo = Some (JSObject [(''vSyncFreq'', JSNumber 60)]),
      targetModeBuffer = Some [2]\<rparr>"

definition entryB :: logical_display_entry where
  "entryB =
     \<lparr>displayName = ''Monitor B'', devicePath = ''DISPLAY#B'',
      sourceConfigId = \<lparr>cfg_adapterId = adapterA, cfg_id = 1\<rparr>,
      targetConfigId = \<lparr>cfg_adapterId = adapterA, cfg_id = 2\<rparr>,
      inUse = True, outputTechnology = JSNumber 10, rotation = JSNumber 1,
      scaling = JSNumber 128, sourceMode = JSObject [(''width'', JSNumber 1280)],
      pathBuffer = [11], sourceModeBuffer = [3],
      targetVideoSignalInfo = Some (JSObject [(''vSyncFreq'', JSNumber 75)]),
      targetModeBuffer = Some [4]\<rparr>"

definition path_unnamed :: path_record where
  "path_unnamed = sample_path 1 (Some 0) 7 (JSNumber 5) (Some 1) [12]"

definition path_bad_source :: path_record where
  "path_bad_source = sample_path 1 (Some 4) 2 (JSNumber 10) (Some 3) [13]"

definition path_no_source :: path_record where
  "path_no_source = sample_path 1 None 2 (JSNumber 10) (Some 3) [13]"

definition path_source_is_target :: path_record where
  "path_source_is_target = sample_path 1 (Some 1) 2 (JSNumber 10) (Some 3) [13]"

definition path_off :: path_record where
  "path_off = sample_path 1 (Some 2) 2 (JSNumber 10) None [11]"

definition path_target_out_of_range :: path_record where
  "path_target_out_of_range = sample_path 1 (Some 2) 2 (JSNumber 10) (Some 4294967295) [11]"

definition entryB_off :: logical_display_entry where
  "entryB_off =
     \<lparr>displayName = ''Monitor B'', devicePath = ''DISPLAY#B'',
      sourceConfigId = \<lparr>cfg_adapterId = adapterA, cfg_id = 1\<rparr>,
      targetConfigId = \<lparr>cfg_adapterId = adapterA, cfg_id = 2\<rparr>,
      inUse = False, outputTechnology = JSNumber 10, rotation = JSNumber 1,
      scaling = JSNumber 128, sourceMode = JSObject [(''width'', JSNumber 1280)],
      pathBuffer = [11], sourceModeBuffer = [3],
      targetVideoSignalInfo = None,
      targetModeBuffer = None\<rparr>"

text \<open>
  Paths whose target is monitor \<open>A\<close> (named with technology \<open>5\<close>) but which carry another
  technology value, or a falsy one.
\<close>

definition path_other_technology :: path_record where
  "path_other_technology = sample_path 1 (Some 0) 1 (JSNumber 10) (Some 1) [10]"

definition path_no_technology :: path_record where
  "path_no_technology = sample_path 1 (Some 0) 1 (JSNumber 0) (Some 1) [10]"

text \<open>
  A path of monitor \<open>B\<close> with the active bit set whose target index points at a source
  mode: the entry is in use and carries no target buffer.
\<close>

definition path_target_is_source :: path_record where
  "path_target_is_source = sample_path 1 (Some 2) 2 (JSNumber 10) (Some 0) [11]"

definition entryB_untargeted :: logical_display_entry where
  "entryB_untargeted =
     \<lparr>displayName = ''Monitor B'', devicePath = ''DISPLAY#B'',
      sourceConfigId = \<lparr>cfg_adapterId = adapterA, cfg_id = 1\<rparr>,
      targetConfigId = \<lparr>cfg_adapterId = adapterA, cfg_id = 2\<rparr>,
      inUse = True, outputTechnology = JSNumber 10, rotation = JSNumber 1,
      scaling = JSNumber 128, sourceMode = JSObject [(''width'', JSNumber 1280)],
      pathBuffer = [11], sourceModeBuffer = [3],
      targetVideoSignalInfo = None,
      targetModeBuffer = None\<rparr>"

section \<open>The base64 codec of the runtime\<close>

text \<open>
  The loops above take the codec of the runtime as a parameter, and the properties below
  hold for any codec. The examples use the standard alphabet with padding, which is what
  \<^verbatim>\<open>toString("base64")\<close> writes; the decoder reads text written that way, in groups of
  four characters, and stops at the padding.
\<close>

definition base64_alphabet :: string where
  "base64_alphabet = ''ABCDEFGHIJKLMNOPQRSTUVWXYZabcdefghijklmnopqrstuvwxyz0123456789+/''"

definition base64_digit :: "nat \<Rightarrow> char" where
  "base64_digit n = base64_alphabet ! (n mod 64)"

fun base64_encode :: "buffer \<Rightarrow> string" where
  "base64_encode [] = []"
| "base64_encode [a] =
     (let n = unat a * 65536
      in [base64_digit (n div 262144), base64_digit (n div 4096), CHR ''='', CHR ''=''])"
| "base64_encode [a, b] =
     (let n = unat a * 65536 + unat b * 256
      in [base64_digit (n div 262144), base64_digit (n div 4096), base64_digit (n div 64),
          CHR ''=''])"
| "base64_encode (a # b # c # rest) =
     (let n = unat a * 65536 + unat b * 256 + unat c
      in [base64_digit (n div 262144), base64_digit (n div 4096), base64_digit (n div 64),
          base64_digit n] @ base64_encode rest)"

fun index_of :: "char \<Rightarrow> string \<Rightarrow> nat option" where
  "index_of c [] = None"
| "index_of c (d # ds) = (if c = d then Some 0 else map_option Suc (index_of c ds))"

definition base64_value :: "char \<Rightarrow> nat option" where
  "base64_value c = index_of c base64_alphabet"

fun base64_decode :: "string \<Rightarrow> buffer" where
  "base64_decode (c1 # c2 # c3 # c4 # rest) =
     (case (base64_value c1, base64_value c2) of
        (Some v1, Some v2) \<Rightarrow>
          (case base64_value c3 of
             None \<Rightarrow> [of_nat ((v1 * 262144 + v2 * 4096) div 65536)]
           | Some v3 \<Rightarrow>
               (case base64_value c4 of
                  None \<Rightarrow>
                    (let n = v1 * 262144 + v2 * 4096 + v3 * 64
                     in [of_nat (n div 65536), of_nat (n div 256)])
                | Some v4 \<Rightarrow>
                    (let n = v1 * 262144 + v2 * 4096 + v3 * 64 + v4
                     in [of_nat (n div 65536), of_nat (n div 256), of_nat n] @
                        base64_decode rest)))
      | _ \<Rightarrow> [])"
| "base64_decode s = []"

section \<open>Sample snapshots and restore requests\<close>

definition snapshotA :: restoration_record where
  "snapshotA = \<lparr>rr_devicePath = ''DISPLAY#A'', rr_pathBuffer = ''Cg=='',
                 rr_sourceModeBuffer = ''AQ=='', rr_targetModeBuffer = ''Ag==''\<rparr>"

definition snapshotB :: restoration_record where
  "snapshotB = \<lparr>rr_devicePath = ''DISPLAY#B'', rr_pathBuffer = ''Cw=='',
                 rr_sourceModeBuffer = ''Aw=='', rr_targetModeBuffer = ''BA==''\<rparr>"

definition request_B :: restore_args where
  "request_B = \<lparr>config = [EnabledItem ''DISPLAY#B'' ''Cw=='' ''Aw=='' ''BA==''],
                 restore_persistent = True\<rparr>"

definition request_A :: restore_args where
  "request_A =
     \<lparr>config = [EnabledItem ''DISPLAY#A'' ''//4='' ''AQID'' ''Ag==''],
      restore_persistent = True\<rparr>"

definition request_A_then_B :: restore_args where
  "request_A_then_B =
     \<lparr>config = [EnabledItem ''DISPLAY#A'' ''//4='' ''AQID'' ''Ag=='',
                EnabledItem ''DISPLAY#B'' ''Cw=='' ''Aw=='' ''BA==''],
      restore_persistent = True\<rparr>"

definition request_A_enabled_B_disabled :: restore_args where
  "request_A_enabled_B_disabled =
     \<lparr>config = [EnabledItem ''DISPLAY#A'' ''//4='' ''AQID'' ''Ag=='', DisabledItem ''DISPLAY#B''],
      restore_persistent = True\<rparr>"

definition request_C_both_ways :: restore_args where
  "request_C_both_ways =
     \<lparr>config = [EnabledItem ''DISPLAY#A'' ''//4='' ''AQID'' ''Ag=='',
                EnabledItem ''DISPLAY#C'' ''Cw=='' ''Aw=='' ''BA=='',
                DisabledItem ''DISPLAY#C'',
                DisabledItem ''DISPLAY#B''],
      restore_persistent = True\<rparr>"

definition request_A_both_ways :: restore_args where
  "request_A_both_ways =
     \<lparr>config = [DisabledItem ''DISPLAY#A'',
                EnabledItem ''DISPLAY#C'' ''Cw=='' ''Aw=='' ''BA=='',
                EnabledItem ''DISPLAY#A'' ''//4='' ''AQID'' ''Ag=='',
                DisabledItem ''DISPLAY#B''],
      restore_persistent = True\<rparr>"

definition applyA :: apply_record where
  "applyA = \<lparr>ar_sourceConfigId = \<lparr>cfg_adapterId = adapterA, cfg_id = 0\<rparr>,
              ar_targetConfigId = \<lparr>cfg_adapterId = adapterA, cfg_id = 1\<rparr>,
              ar_pathBuffer = [255, 254], ar_sourceModeBuffer = [1, 2, 3],
              ar_targetModeBuffer = [2]\<rparr>"

definition applyB :: apply_record where
  "applyB = \<lparr>ar_sourceConfigId = \<lparr>cfg_adapterId = adapterA, cfg_id = 1\<rparr>,
              ar_targetConfigId = \<lparr>cfg_adapterId = adapterA, cfg_id = 2\<rparr>,
              ar_pathBuffer = [11], ar_sourceModeBuffer = [3],
              ar_targetModeBuffer = [4]\<rparr>"

section \<open>Sample listeners\<close>

text \<open>
  Listeners that always return, and listeners of which the first throws when it is
  handed a configuration.
\<close>

fun no_listener_throws :: listeners where
  "no_listener_throws call = None"

fun first_listener_throws :: listeners where
  "first_listener_throws (CalledWithConfig callback extracted) =
     (if callback = 1 then Some (ListenerError ''listener failed'') else None)"
| "first_listener_throws (CalledWithError callback e) = None"

definition sample_state :: notifier_state where
  "sample_state = \<lparr>currentDisplayConfig = Some [entryA], displayChangeCallbacks = [1, 2]\<rparr>"

section \<open>Properties of the extractor\<close>

lemma extract_loop_acc:
  "extract_loop raw ps ret = ret @ extract_loop raw ps []"
proof (induction ps arbitrary: ret)
  case Nil
  show ?case by simp
next
  case (Cons p ps)
  show ?case
  proof (cases "extract_path raw p")
    case None
    then show ?thesis using Cons.IH [of ret] by simp
  next
    case (Some entry)
    then show ?thesis
      using Cons.IH [of "ret @ [entry]"] Cons.IH [of "[entry]"] by simp
  qed
qed

lemma extract_loop_append:
  "extract_loop raw (ps @ qs) [] = extract_loop raw ps [] @ extract_loop raw qs []"
proof (induction ps)
  case Nil
  show ?case by simp
next
  case (Cons p ps)
  show ?case
  proof (cases "extract_path raw p")
    case None
    then show ?thesis using Cons.IH by simp
  next
    case (Some entry)
    then show ?thesis
      using Cons.IH extract_loop_acc [of raw "ps @ qs" "[entry]"]
        extract_loop_acc [of raw ps "[entry]"]
      by simp
  qed
qed

lemma extract_path_pathArray_update:
  "extract_path (raw\<lparr>pathArray := xs\<rparr>) p = extract_path raw p"
  by (simp add: extract_path_def Let_def split: option.splits mode_value.splits)

lemma extract_loop_pathArray_update:
  "extract_loop (raw\<lparr>pathArray := xs\<rparr>) ps ret = extract_loop raw ps ret"
  by (induction ps arbitrary: ret)
     (simp_all add: extract_path_pathArray_update split: option.splits)

lemma extract_loop_drop:
  assumes "extract_path raw p = None"
  shows "extract_loop raw (ps @ p # qs) [] = extract_loop raw (ps @ qs) []"
  using assms by (simp add: extract_loop_append)

lemma extract_loop_keep:
  assumes "extract_path raw p = Some entry"
  shows "extract_loop raw (ps @ p # qs) [] =
         extract_loop raw ps [] @ entry # extract_loop raw qs []"
  using assms extract_loop_acc [of raw qs "[entry]"] by (simp add: extract_loop_append)

lemmas sample_defs = adapterA_def sample_path_def sample_name_def sample_modes_def
  nameA_def nameB_def sample_names_def pathA_def pathB_def sample_raw_def entryA_def entryB_def

lemmas extract_defs = extractDisplayConfig_def extract_path_def name_matches_def array_get_def

lemma extract_pathA: "extract_path (sample_raw ps) pathA = Some entryA"
  by (simp add: sample_defs extract_defs)

lemma extract_pathB: "extract_path (sample_raw ps) pathB = Some entryB"
  by (simp add: sample_defs extract_defs)

lemma extract_sample:
  "extractDisplayConfig (QuerySucceeded (sample_raw [pathA, pathB])) = Inr [entryA, entryB]"
  by (simp add: sample_defs extract_defs)

subsection \<open>Sets as lists\<close>

lemma set_Set_add: "set (Set_add s x) = insert x (set s)"
  by (auto simp: Set_add_def)

lemma set_foldl_Set_add: "set (foldl Set_add s xs) = set s \<union> set xs"
  by (induction xs arbitrary: s) (auto simp: set_Set_add)

lemma set_new_Set: "set (new_Set xs) = set xs"
  by (simp add: new_Set_def set_foldl_Set_add)

lemma Set_has_new_Set: "Set_has (new_Set xs) x \<longleftrightarrow> x \<in> set xs"
  by (simp add: Set_has_def set_new_Set)

lemma set_setSubtract_foldl:
  "set (foldl (\<lambda>ret entry. if \<not> Set_has right entry then Set_add ret entry else ret) acc left) =
     set acc \<union> (set left - set right)"
  by (induction left arbitrary: acc) (auto simp: set_Set_add Set_has_def)

lemma set_setSubtract: "set (setSubtract left right) = set left - set right"
  by (simp add: setSubtract_def set_setSubtract_foldl)

lemma missingEnabled_empty_iff:
  "length (missingEnabled args currentConfig) = 0 \<longleftrightarrow>
     set (devicePathNames args) \<subseteq> devicePath ` set currentConfig"
proof -
  have "length (missingEnabled args currentConfig) = 0 \<longleftrightarrow>
          set (missingEnabled args currentConfig) = {}"
    by simp
  then show ?thesis
    by (simp add: missingEnabled_def set_setSubtract set_new_Set)
qed

lemma set_devicePathNames:
  "set (devicePathNames args) =
     {item_devicePath item | item. item \<in> set (config args) \<and> item_targetModeBuffer item \<noteq> None}"
  by (auto simp: devicePathNames_def)

subsection \<open>The two passes of the fallback\<close>

lemma toggle_pass_pushed:
  "set (snd (toggle_pass g xs (seen, pushed))) =
     set pushed \<union> {x \<in> set xs. x \<notin> set seen \<and> x \<in> set g}"
  by (induction xs arbitrary: seen pushed) (auto simp: Set_has_def set_Set_add)

lemma toggle_pass_seen:
  "set (fst (toggle_pass g xs (seen, pushed))) = set seen \<union> {x \<in> set xs. x \<in> set g}"
  by (induction xs arbitrary: seen pushed) (auto simp: Set_has_def set_Set_add)

lemma toggle_pass_distinct:
  "distinct pushed \<Longrightarrow> set pushed \<subseteq> set seen \<Longrightarrow>
     distinct (snd (toggle_pass g xs (seen, pushed)))"
proof (induction xs arbitrary: seen pushed)
  case Nil
  then show ?case by simp
next
  case (Cons x xs)
  show ?case
  proof (cases "\<not> Set_has seen x \<and> Set_has g x")
    case True
    have "distinct (pushed @ [x])" using Cons.prems True by (auto simp: Set_has_def)
    moreover have "set (pushed @ [x]) \<subseteq> set (Set_add seen x)"
      using Cons.prems by (auto simp: set_Set_add)
    ultimately show ?thesis using True Cons.IH by simp
  next
    case False
    then show ?thesis using Cons by auto
  qed
qed

lemma set_fallback_enable:
  "set (fallback_enable args currentConfig) =
     set (devicePathNames args) \<inter> devicePath ` set currentConfig"
  by (auto simp: fallback_enable_def toggle_pass_pushed set_new_Set)

lemma set_fallback_disable:
  "set (fallback_disable args currentConfig) =
     (set (notInUse args) \<inter> devicePath ` set currentConfig) - set (devicePathNames args)"
  by (auto simp: fallback_disable_def Let_def toggle_pass_pushed toggle_pass_seen set_new_Set)

subsection \<open>Loops as maps and filters\<close>

lemma toggle_loop_eq:
  "toggle_loop enablePaths disablePaths conf (en, dis) =
     (en @ map targetConfigId (filter (\<lambda>e. lists_path enablePaths (devicePath e)) conf),
      dis @ map targetConfigId (filter (\<lambda>e. lists_path disablePaths (devicePath e)) conf))"
  by (induction conf arbitrary: en dis) (simp_all add: Let_def)

lemma lookup_loop_eq:
  "lookup_loop conf ret k =
     (case ret k of
        Some e \<Rightarrow> Some e
      | None \<Rightarrow> find (\<lambda>e. devicePath e = k \<and> \<not> (inUse e \<and> targetModeBuffer e = None)) conf)"
  by (induction conf arbitrary: ret) (auto split: option.splits)

lemma devicePathLookup_eq:
  "devicePathLookupForEnabledDisplayConfig conf k =
     find (\<lambda>e. devicePath e = k \<and> \<not> (inUse e \<and> targetModeBuffer e = None)) conf"
  by (simp add: devicePathLookupForEnabledDisplayConfig_def lookup_loop_eq)

lemma coerce_loop_eq:
  "coerce_loop fromBase64 pathLookup items acc =
     acc @ List.map_filter (coerce_item fromBase64 pathLookup) items"
  by (induction fromBase64 pathLookup items acc rule: coerce_loop.induct)
     (auto simp: List.map_filter_simps split: option.splits)

subsection \<open>The two branches of the restore\<close>

lemma toggleEnabledDisplays_calls:
  "\<forall>c \<in> set (fst (toggleEnabledDisplays a q r)). is_toggle_call c"
  by (simp add: toggleEnabledDisplays_def win32_toggleEnabledDisplays_def toggle_loop_eq
           split: sum.splits)

lemma restore_exact:
  assumes "extractDisplayConfig q1 = Inr currentConfig"
    and "set (devicePathNames args) \<subseteq> devicePath ` set currentConfig"
  shows "restoreDisplayConfig fromBase64 args q1 q2 r =
         win32_restoreDisplayConfig
           (List.map_filter
              (coerce_item fromBase64 (devicePathLookupForEnabledDisplayConfig currentConfig))
              (config args))
           (restore_persistent args) r"
  using assms
  by (simp add: restoreDisplayConfig_def missingEnabled_empty_iff coerce_loop_eq
           del: length_0_conv)

lemma restore_fallback:
  assumes "extractDisplayConfig q1 = Inr currentConfig"
    and "\<not> set (devicePathNames args) \<subseteq> devicePath ` set currentConfig"
  shows "restoreDisplayConfig fromBase64 args q1 q2 r =
         toggleEnabledDisplays
           \<lparr>persistent = restore_persistent args,
            enable = Some (fallback_enable args currentConfig),
            disable = Some (fallback_disable args currentConfig)\<rparr> q2 r"
  using assms
  by (simp add: restoreDisplayConfig_def missingEnabled_empty_iff del: length_0_conv)

lemma map_filter_append:
  "List.map_filter f (xs @ ys) = List.map_filter f xs @ List.map_filter f ys"
  by (simp add: List.map_filter_def)

subsection \<open>Extraction of the sample configurations\<close>

lemmas codec_defs = base64_digit_def base64_value_def base64_alphabet_def

lemmas restore_defs = restoreDisplayConfig_def missingEnabled_def devicePathNames_def
  notInUse_def new_Set_def Set_add_def Set_has_def setSubtract_def
  devicePathLookupForEnabledDisplayConfig_def win32_restoreDisplayConfig_def
  fallback_enable_def fallback_disable_def

lemma extract_path_off: "extract_path (sample_raw ps) path_off = Some entryB_off"
  by (simp add: sample_defs extract_defs path_off_def entryB_off_def)

lemma extract_off_only:
  "extractDisplayConfig (QuerySucceeded (sample_raw [path_off])) = Inr [entryB_off]"
  by (simp add: extractDisplayConfig_def sample_raw_def extract_path_off [unfolded sample_raw_def])

lemma extract_path_target_is_source:
  "extract_path (sample_raw ps) path_target_is_source = Some entryB_untargeted"
  by (simp add: sample_defs extract_defs path_target_is_source_def entryB_untargeted_def)

lemma extract_A_untargeted:
  "extractDisplayConfig (QuerySucceeded (sample_raw [pathA, path_target_is_source])) =
     Inr [entryA, entryB_untargeted]"
  by (simp add: extractDisplayConfig_def sample_raw_def
        extract_pathA [unfolded sample_raw_def]
        extract_path_target_is_source [unfolded sample_raw_def])

lemma extract_A_off:
  "extractDisplayConfig (QuerySucceeded (sample_raw [pathA, path_off])) =
     Inr [entryA, entryB_off]"
  by (simp add: extractDisplayConfig_def sample_raw_def
        extract_pathA [unfolded sample_raw_def] extract_path_off [unfolded sample_raw_def])

subsection \<open>The loop over the listeners\<close>

lemma notify_loop_all_return:
  "\<forall>callback \<in> set callbacks. throws (call callback) = None \<Longrightarrow>
     notify_loop throws call callbacks calls = (calls @ map call callbacks, None)"
  by (induction callbacks arbitrary: calls) simp_all

lemma notify_loop_first_throw:
  "\<forall>callback \<in> set before. throws (call callback) = None \<Longrightarrow>
   throws (call thrower) = Some e \<Longrightarrow>
     notify_loop throws call (before @ thrower # after) calls =
       (calls @ map call before @ [call thrower], Some e)"
  by (induction before arbitrary: calls) simp_all

lemma catch_block_state: "fst (catch_block throws st e calls) = st"
  by (simp add: catch_block_def split: prod.splits option.splits)

section \<open>Claims about the extractor\<close>

text \<open>
  \<^bold>\<open>Claim C4.\<close> A path record whose target matches no name record under the join condition
  (equal \<^verbatim>\<open>adapterId.LowPart\<close>, \<^verbatim>\<open>adapterId.HighPart\<close> and \<^verbatim>\<open>id\<close>, both
  \<^verbatim>\<open>outputTechnology\<close> values truthy, \<^verbatim>\<open>monitorDevicePath\<close> non-empty) contributes no
  entry: the loop body skips it, and the extraction returns exactly what it returns on
  the same input without that path record.
\<close>

theorem unmatched_name_contributes_no_entry:
  assumes no_name: "\<forall>n \<in> set (nameArray raw).
            \<not> (LowPart (n_adapterId n) = LowPart (tgt_adapterId (targetInfo (path_value p))) \<and>
               HighPart (n_adapterId n) = HighPart (tgt_adapterId (targetInfo (path_value p))) \<and>
               n_id n = tgt_id (targetInfo (path_value p)) \<and>
               truthy (n_outputTechnology n) \<and>
               truthy (tgt_outputTechnology (targetInfo (path_value p))) \<and>
               monitorDevicePath n \<noteq> [])"
    and paths: "pathArray raw = ps @ p # qs"
  shows "extract_path raw p = None \<and>
         extractDisplayConfig (QuerySucceeded raw) =
           extractDisplayConfig (QuerySucceeded (raw\<lparr>pathArray := ps @ qs\<rparr>))"
proof -
  have "find (name_matches (targetInfo (path_value p))) (nameArray raw) = None"
    using no_name by (simp add: find_None_iff name_matches_def)
  then have dropped: "extract_path raw p = None"
    by (simp add: extract_path_def Let_def)
  then show ?thesis
    using paths
    by (simp add: extractDisplayConfig_def extract_loop_drop extract_loop_pathArray_update)
qed

theorem unmatched_name_contributes_no_entry_witness:
  "extract_path (sample_raw [pathA, path_unnamed, pathB]) path_unnamed = None \<and>
   extractDisplayConfig (QuerySucceeded (sample_raw [pathA, path_unnamed, pathB])) =
     extractDisplayConfig (QuerySucceeded (sample_raw [pathA, pathB])) \<and>
   extractDisplayConfig (QuerySucceeded (sample_raw [pathA, pathB])) = Inr [entryA, entryB]"
proof -
  have names: "\<forall>n \<in> set (nameArray (sample_raw [pathA, path_unnamed, pathB])).
            \<not> (LowPart (n_adapterId n) = LowPart (tgt_adapterId (targetInfo (path_value path_unnamed))) \<and>
               HighPart (n_adapterId n) = HighPart (tgt_adapterId (targetInfo (path_value path_unnamed))) \<and>
               n_id n = tgt_id (targetInfo (path_value path_unnamed)) \<and>
               truthy (n_outputTechnology n) \<and>
               truthy (tgt_outputTechnology (targetInfo (path_value path_unnamed))) \<and>
               monitorDevicePath n \<noteq> [])"
    by (simp add: sample_defs path_unnamed_def)
  have paths: "pathArray (sample_raw [pathA, path_unnamed, pathB]) = [pathA] @ path_unnamed # [pathB]"
    by (simp add: sample_raw_def)
  have same: "(sample_raw [pathA, path_unnamed, pathB])\<lparr>pathArray := [pathA] @ [pathB]\<rparr> = sample_raw [pathA, pathB]"
    by (simp add: sample_raw_def)
  show ?thesis
    using unmatched_name_contributes_no_entry [OF names paths] same extract_sample
    by simp
qed

text \<open>
  \<^bold>\<open>Claim C5.\<close> A path record whose \<^verbatim>\<open>sourceInfo.modeInfoIdx\<close> is missing, or out of range for
  the mode array, or points at a mode record not tagged \<^verbatim>\<open>"source"\<close>, contributes no entry,
  whatever its target mode is; the extraction does not fail on it, and returns what it
  returns on the same input without that path record.
\<close>

theorem unresolved_source_mode_contributes_no_entry:
  assumes paths: "pathArray raw = ps @ p # qs"
    and source: "src_modeInfoIdx (sourceInfo (path_value p)) = None \<or>
       (\<exists>i. src_modeInfoIdx (sourceInfo (path_value p)) = Some i \<and>
            (length (modeArray raw) \<le> i \<or> \<not> is_source (mode_value (modeArray raw ! i))))"
  shows "extract_path raw p = None \<and>
         extractDisplayConfig (QuerySucceeded raw) = Inr (extract_loop raw (ps @ qs) []) \<and>
         extractDisplayConfig (QuerySucceeded raw) =
           extractDisplayConfig (QuerySucceeded (raw\<lparr>pathArray := ps @ qs\<rparr>))"
proof -
  have dropped: "extract_path raw p = None"
    using source
    by (auto simp: extract_path_def Let_def array_get_def
             split: option.splits mode_value.splits)
  then show ?thesis
    using paths
    by (simp add: extractDisplayConfig_def extract_loop_drop extract_loop_pathArray_update)
qed

theorem unresolved_source_mode_contributes_no_entry_witness:
  "extractDisplayConfig (QuerySucceeded (sample_raw [pathA, path_bad_source])) = Inr [entryA] \<and>
   extractDisplayConfig (QuerySucceeded (sample_raw [pathA, path_no_source])) = Inr [entryA] \<and>
   extractDisplayConfig (QuerySucceeded (sample_raw [pathA, path_source_is_target])) = Inr [entryA]"
proof -
  have one: "extractDisplayConfig (QuerySucceeded (sample_raw [pathA])) = Inr [entryA]"
    by (simp add: sample_defs extract_defs)
  have same: "\<And>p. (sample_raw [pathA, p])\<lparr>pathArray := [pathA] @ []\<rparr> = sample_raw [pathA]"
    by (simp add: sample_raw_def)
  have paths: "\<And>p. pathArray (sample_raw [pathA, p]) = [pathA] @ p # []"
    by (simp add: sample_raw_def)
  have h1: "src_modeInfoIdx (sourceInfo (path_value path_bad_source)) = None \<or>
       (\<exists>i. src_modeInfoIdx (sourceInfo (path_value path_bad_source)) = Some i \<and>
            (length (modeArray (sample_raw [pathA, path_bad_source])) \<le> i \<or>
             \<not> is_source (mode_value (modeArray (sample_raw [pathA, path_bad_source]) ! i))))"
    by (simp add: sample_defs path_bad_source_def)
  have h2: "src_modeInfoIdx (sourceInfo (path_value path_no_source)) = None \<or>
       (\<exists>i. src_modeInfoIdx (sourceInfo (path_value path_no_source)) = Some i \<and>
            (length (modeArray (sample_raw [pathA, path_no_source])) \<le> i \<or>
             \<not> is_source (mode_value (modeArray (sample_raw [pathA, path_no_source]) ! i))))"
    by (simp add: sample_defs path_no_source_def)
  have h3: "src_modeInfoIdx (sourceInfo (path_value path_source_is_target)) = None \<or>
       (\<exists>i. src_modeInfoIdx (sourceInfo (path_value path_source_is_target)) = Some i \<and>
            (length (modeArray (sample_raw [pathA, path_source_is_target])) \<le> i \<or>
             \<not> is_source (mode_value (modeArray (sample_raw [pathA, path_source_is_target]) ! i))))"
    by (simp add: sample_defs path_source_is_target_def)
  show ?thesis
    using unresolved_source_mode_contributes_no_entry [OF paths h1]
      unresolved_source_mode_contributes_no_entry [OF paths h2]
      unresolved_source_mode_contributes_no_entry [OF paths h3]
    by (simp add: extract_pathA)
qed

text \<open>
  \<^bold>\<open>Claim C6.\<close> A path record whose \<^verbatim>\<open>targetInfo.modeInfoIdx\<close> is missing or out of range,
  whose name resolves (to \<open>n\<close>) and whose source mode resolves (the record at
  \<^verbatim>\<open>sourceInfo.modeInfoIdx\<close> exists and is a source mode), is not dropped: at its place
  in the output stands an entry with \<^verbatim>\<open>inUse = false\<close> and neither
  \<^verbatim>\<open>targetModeBuffer\<close> nor \<^verbatim>\<open>targetVideoSignalInfo\<close>, whatever the active bit of its flags.
\<close>

theorem missing_target_mode_keeps_entry_not_in_use:
  assumes paths: "pathArray raw = ps @ p # qs"
    and name: "find (name_matches (targetInfo (path_value p))) (nameArray raw) = Some n"
    and source: "src_modeInfoIdx (sourceInfo (path_value p)) = Some i" "i < length (modeArray raw)"
      "modeArray raw ! i = \<lparr>mode_value = SourceModeValue payload, mode_buffer = sbuf\<rparr>"
    and target: "tgt_modeInfoIdx (targetInfo (path_value p)) = None \<or>
       (\<exists>j. tgt_modeInfoIdx (targetInfo (path_value p)) = Some j \<and> length (modeArray raw) \<le> j)"
  shows "extractDisplayConfig (QuerySucceeded raw) =
           Inr (extract_loop raw ps [] @
                [\<lparr>displayName = monitorFriendlyDeviceName n,
                  devicePath = monitorDevicePath n,
                  sourceConfigId = \<lparr>cfg_adapterId = src_adapterId (sourceInfo (path_value p)),
                                    cfg_id = src_id (sourceInfo (path_value p))\<rparr>,
                  targetConfigId = \<lparr>cfg_adapterId = tgt_adapterId (targetInfo (path_value p)),
                                    cfg_id = tgt_id (targetInfo (path_value p))\<rparr>,
                  inUse = False,
                  outputTechnology = tgt_outputTechnology (targetInfo (path_value p)),
                  rotation = tgt_rotation (targetInfo (path_value p)),
                  scaling = tgt_scaling (targetInfo (path_value p)),
                  sourceMode = payload,
                  pathBuffer = path_buffer p,
                  sourceModeBuffer = sbuf,
                  targetVideoSignalInfo = None,
                  targetModeBuffer = None\<rparr>] @
                extract_loop raw qs [])"
proof -
  have tgt: "array_get (modeArray raw) (tgt_modeInfoIdx (targetInfo (path_value p))) = None"
    using target by (auto simp: array_get_def)
  have src: "array_get (modeArray raw) (src_modeInfoIdx (sourceInfo (path_value p))) =
               Some \<lparr>mode_value = SourceModeValue payload, mode_buffer = sbuf\<rparr>"
    using source by (simp add: array_get_def)
  have "extract_path raw p =
          Some \<lparr>displayName = monitorFriendlyDeviceName n,
                  devicePath = monitorDevicePath n,
                  sourceConfigId = \<lparr>cfg_adapterId = src_adapterId (sourceInfo (path_value p)),
                                    cfg_id = src_id (sourceInfo (path_value p))\<rparr>,
                  targetConfigId = \<lparr>cfg_adapterId = tgt_adapterId (targetInfo (path_value p)),
                                    cfg_id = tgt_id (targetInfo (path_value p))\<rparr>,
                  inUse = False,
                  outputTechnology = tgt_outputTechnology (targetInfo (path_value p)),
                  rotation = tgt_rotation (targetInfo (path_value p)),
                  scaling = tgt_scaling (targetInfo (path_value p)),
                  sourceMode = payload,
                  pathBuffer = path_buffer p,
                  sourceModeBuffer = sbuf,
                  targetVideoSignalInfo = None,
                  targetModeBuffer = None\<rparr>"
    by (simp add: extract_path_def Let_def name src tgt)
  then show ?thesis
    using paths by (simp add: extractDisplayConfig_def extract_loop_keep)
qed

theorem missing_target_mode_keeps_entry_not_in_use_witness:
  "extractDisplayConfig (QuerySucceeded (sample_raw [pathA, path_off])) = Inr [entryA, entryB_off] \<and>
   extractDisplayConfig (QuerySucceeded (sample_raw [pathA, path_target_out_of_range])) =
     Inr [entryA, entryB_off]"
proof -
  have paths: "\<And>p. pathArray (sample_raw [pathA, p]) = [pathA] @ p # []"
    by (simp add: sample_raw_def)
  have name1: "find (name_matches (targetInfo (path_value path_off)))
                 (nameArray (sample_raw [pathA, path_off])) =
               Some nameB"
    by (simp add: sample_defs path_off_def name_matches_def)
  have name2: "find (name_matches (targetInfo (path_value path_target_out_of_range)))
                 (nameArray (sample_raw [pathA, path_target_out_of_range])) =
               Some nameB"
    by (simp add: sample_defs path_target_out_of_range_def name_matches_def)
  have src1: "src_modeInfoIdx (sourceInfo (path_value path_off)) = Some 2"
    "2 < length (modeArray (sample_raw [pathA, path_off]))"
    "modeArray (sample_raw [pathA, path_off]) ! 2 =
       \<lparr>mode_value = SourceModeValue (JSObject [(''width'', JSNumber 1280)]), mode_buffer = [3]\<rparr>"
    by (simp_all add: sample_defs path_off_def)
  have src2: "src_modeInfoIdx (sourceInfo (path_value path_target_out_of_range)) = Some 2"
    "2 < length (modeArray (sample_raw [pathA, path_target_out_of_range]))"
    "modeArray (sample_raw [pathA, path_target_out_of_range]) ! 2 =
       \<lparr>mode_value = SourceModeValue (JSObject [(''width'', JSNumber 1280)]), mode_buffer = [3]\<rparr>"
    by (simp_all add: sample_defs path_target_out_of_range_def)
  have tgt1: "tgt_modeInfoIdx (targetInfo (path_value path_off)) = None \<or>
       (\<exists>j. tgt_modeInfoIdx (targetInfo (path_value path_off)) = Some j \<and>
            length (modeArray (sample_raw [pathA, path_off])) \<le> j)"
    by (simp add: sample_defs path_off_def)
  have tgt2: "tgt_modeInfoIdx (targetInfo (path_value path_target_out_of_range)) = None \<or>
       (\<exists>j. tgt_modeInfoIdx (targetInfo (path_value path_target_out_of_range)) = Some j \<and>
            length (modeArray (sample_raw [pathA, path_target_out_of_range])) \<le> j)"
    by (simp add: sample_defs path_target_out_of_range_def)
  have e1: "extractDisplayConfig (QuerySucceeded (sample_raw [pathA, path_off])) =
              Inr [entryA, entryB_off]"
    using missing_target_mode_keeps_entry_not_in_use [OF paths name1 src1 tgt1]
    by (simp add: extract_pathA) (simp add: sample_defs path_off_def entryB_off_def)
  have e2: "extractDisplayConfig (QuerySucceeded (sample_raw [pathA, path_target_out_of_range])) =
              Inr [entryA, entryB_off]"
    using missing_target_mode_keeps_entry_not_in_use [OF paths name2 src2 tgt2]
    by (simp add: extract_pathA)
       (simp add: sample_defs path_target_out_of_range_def entryB_off_def)
  show ?thesis using e1 e2 by simp
qed

text \<open>
  \<^bold>\<open>Claim C9.\<close> The name-matching condition tests the two \<^verbatim>\<open>outputTechnology\<close> values for
  truthiness only and never compares them. For a path record and a name record of the
  input that agree on \<^verbatim>\<open>(adapterId, id)\<close>, with a non-empty device path and both
  technologies truthy but unequal, the name record satisfies the condition and the name
  lookup succeeds, so the path is not dropped for its name: its entry is produced, exactly
  when its source mode resolves to a record tagged \<^verbatim>\<open>"source"\<close> as for any named path.
  A path record whose target technology is falsy matches no name record and is dropped.
\<close>

theorem name_match_ignores_technology_values:
  "(n \<in> set (nameArray raw) \<and>
    LowPart (n_adapterId n) = LowPart (tgt_adapterId (targetInfo (path_value p))) \<and>
    HighPart (n_adapterId n) = HighPart (tgt_adapterId (targetInfo (path_value p))) \<and>
    n_id n = tgt_id (targetInfo (path_value p)) \<and>
    monitorDevicePath n \<noteq> [] \<and>
    truthy (n_outputTechnology n) \<and>
    truthy (tgt_outputTechnology (targetInfo (path_value p))) \<and>
    n_outputTechnology n \<noteq> tgt_outputTechnology (targetInfo (path_value p))
    \<longrightarrow>
      name_matches (targetInfo (path_value p)) n \<and>
      find (name_matches (targetInfo (path_value p))) (nameArray raw) \<noteq> None \<and>
      (extract_path raw p \<noteq> None \<longleftrightarrow>
         (\<exists>m. array_get (modeArray raw) (src_modeInfoIdx (sourceInfo (path_value p))) = Some m \<and>
              is_source (mode_value m))))
   \<and>
   (\<not> truthy (tgt_outputTechnology (targetInfo (path_value p)))
    \<longrightarrow>
      find (name_matches (targetInfo (path_value p))) (nameArray raw) = None \<and>
      extract_path raw p = None)"
proof (intro conjI impI)
  assume a: "n \<in> set (nameArray raw) \<and>
    LowPart (n_adapterId n) = LowPart (tgt_adapterId (targetInfo (path_value p))) \<and>
    HighPart (n_adapterId n) = HighPart (tgt_adapterId (targetInfo (path_value p))) \<and>
    n_id n = tgt_id (targetInfo (path_value p)) \<and>
    monitorDevicePath n \<noteq> [] \<and>
    truthy (n_outputTechnology n) \<and>
    truthy (tgt_outputTechnology (targetInfo (path_value p))) \<and>
    n_outputTechnology n \<noteq> tgt_outputTechnology (targetInfo (path_value p))"
  then show m: "name_matches (targetInfo (path_value p)) n"
    by (simp add: name_matches_def)
  with a show f: "find (name_matches (targetInfo (path_value p))) (nameArray raw) \<noteq> None"
    by (auto simp: find_None_iff)
  then obtain d where "find (name_matches (targetInfo (path_value p))) (nameArray raw) = Some d"
    by blast
  then show "extract_path raw p \<noteq> None \<longleftrightarrow>
         (\<exists>m. array_get (modeArray raw) (src_modeInfoIdx (sourceInfo (path_value p))) = Some m \<and>
              is_source (mode_value m))"
    by (auto simp: extract_path_def Let_def split: option.splits mode_value.splits)
next
  assume b: "\<not> truthy (tgt_outputTechnology (targetInfo (path_value p)))"
  then show none: "find (name_matches (targetInfo (path_value p))) (nameArray raw) = None"
    by (simp add: find_None_iff name_matches_def)
  then show "extract_path raw p = None"
    by (simp add: extract_path_def Let_def)
qed

theorem name_match_ignores_technology_values_witness:
  "name_matches (targetInfo (path_value path_other_technology)) nameA \<and>
   n_outputTechnology nameA \<noteq> tgt_outputTechnology (targetInfo (path_value path_other_technology)) \<and>
   extract_path (sample_raw [path_other_technology]) path_other_technology \<noteq> None \<and>
   extract_path (sample_raw [path_no_technology]) path_no_technology = None"
proof -
  have h1: "nameA \<in> set (nameArray (sample_raw [path_other_technology])) \<and>
    LowPart (n_adapterId nameA) =
      LowPart (tgt_adapterId (targetInfo (path_value path_other_technology))) \<and>
    HighPart (n_adapterId nameA) =
      HighPart (tgt_adapterId (targetInfo (path_value path_other_technology))) \<and>
    n_id nameA = tgt_id (targetInfo (path_value path_other_technology)) \<and>
    monitorDevicePath nameA \<noteq> [] \<and>
    truthy (n_outputTechnology nameA) \<and>
    truthy (tgt_outputTechnology (targetInfo (path_value path_other_technology))) \<and>
    n_outputTechnology nameA \<noteq> tgt_outputTechnology (targetInfo (path_value path_other_technology))"
    by (simp add: sample_defs path_other_technology_def)
  have src: "\<exists>m. array_get (modeArray (sample_raw [path_other_technology]))
                 (src_modeInfoIdx (sourceInfo (path_value path_other_technology))) = Some m \<and>
               is_source (mode_value m)"
    by (simp add: sample_defs path_other_technology_def array_get_def)
  have h2: "\<not> truthy (tgt_outputTechnology (targetInfo (path_value path_no_technology)))"
    by (simp add: sample_defs path_no_technology_def)
  show ?thesis
    using name_match_ignores_technology_values
            [of nameA "sample_raw [path_other_technology]" path_other_technology]
          name_match_ignores_technology_values
            [of nameA "sample_raw [path_no_technology]" path_no_technology]
          h1 src h2
    by blast
qed

section \<open>Claims about the restoration snapshot\<close>

text \<open>
  \<^bold>\<open>Claim C7.\<close> For every list of entries, the loop of \<^verbatim>\<open>displayConfigForRestoration\<close> returns one
  record for each entry that is in use and has a target mode buffer, in the order of the
  input, made of the device path and the three buffers in base64; no other entry appears.
  When the extraction succeeds with that list, this is what the function returns.
\<close>

theorem snapshot_is_filter_and_encode:
  "restoration_loop toBase64 entries [] =
     map (\<lambda>e. \<lparr>rr_devicePath = devicePath e,
                rr_pathBuffer = toBase64 (pathBuffer e),
                rr_sourceModeBuffer = toBase64 (sourceModeBuffer e),
                rr_targetModeBuffer = toBase64 (the (targetModeBuffer e))\<rparr>)
         (filter (\<lambda>e. inUse e \<and> targetModeBuffer e \<noteq> None) entries) \<and>
   (extractDisplayConfig q = Inr entries \<longrightarrow>
      displayConfigForRestoration toBase64 q =
        Inr (map (\<lambda>e. \<lparr>rr_devicePath = devicePath e,
                        rr_pathBuffer = toBase64 (pathBuffer e),
                        rr_sourceModeBuffer = toBase64 (sourceModeBuffer e),
                        rr_targetModeBuffer = toBase64 (the (targetModeBuffer e))\<rparr>)
                 (filter (\<lambda>e. inUse e \<and> targetModeBuffer e \<noteq> None) entries)))"
proof -
  let ?encoded = "\<lambda>e. \<lparr>rr_devicePath = devicePath e,
                rr_pathBuffer = toBase64 (pathBuffer e),
                rr_sourceModeBuffer = toBase64 (sourceModeBuffer e),
                rr_targetModeBuffer = toBase64 (the (targetModeBuffer e))\<rparr>"
  let ?kept = "\<lambda>e. inUse e \<and> targetModeBuffer e \<noteq> None"
  have loop: "restoration_loop toBase64 es ret = ret @ map ?encoded (filter ?kept es)" for es ret
  proof (induction es arbitrary: ret)
    case Nil
    show ?case by simp
  next
    case (Cons e es)
    show ?case
    proof (cases "?kept e")
      case True
      then show ?thesis using Cons.IH [of "ret @ [?encoded e]"] by auto
    next
      case False
      then show ?thesis using Cons.IH [of ret] by auto
    qed
  qed
  have snapshot: "restoration_loop toBase64 entries [] = map ?encoded (filter ?kept entries)"
    using loop [of entries "[]"] by simp
  moreover have "displayConfigForRestoration toBase64 q = Inr (map ?encoded (filter ?kept entries))"
    if "extractDisplayConfig q = Inr entries"
    using that snapshot by (simp add: displayConfigForRestoration_def)
  ultimately show ?thesis by blast
qed

theorem snapshot_is_filter_and_encode_witness:
  "extractDisplayConfig (QuerySucceeded (sample_raw [pathA, path_off, pathB])) =
     Inr [entryA, entryB_off, entryB] \<and>
   displayConfigForRestoration base64_encode (QuerySucceeded (sample_raw [pathA, path_off, pathB])) =
     Inr [snapshotA, snapshotB]"
proof -
  have live: "extractDisplayConfig (QuerySucceeded (sample_raw [pathA, path_off, pathB])) =
     Inr [entryA, entryB_off, entryB]"
    by (simp add: extractDisplayConfig_def sample_raw_def
          extract_pathA [unfolded sample_raw_def] extract_pathB [unfolded sample_raw_def]
          extract_path_off [unfolded sample_raw_def])
  show ?thesis
    using snapshot_is_filter_and_encode
            [of base64_encode "[entryA, entryB_off, entryB]"
                "QuerySucceeded (sample_raw [pathA, path_off, pathB])"] live
    by (simp add: entryA_def entryB_def entryB_off_def snapshotA_def snapshotB_def codec_defs)
qed

section \<open>Claims about restoring\<close>

text \<open>
  \<^bold>\<open>Claim C1.\<close> As stated, the lookup of the exact restore holds only live entries that are in
  use and have a target mode buffer, so that an entry with \<^verbatim>\<open>inUse\<close> false is absent and
  an item naming it is skipped. The guard of the loop is
  \<^verbatim>\<open>entry.inUse && entry.targetModeBuffer === undefined\<close>: it leaves out only the entries
  that are in use without a target buffer. Monitor \<open>B\<close> below is connected and off; its
  entry is in the lookup, and the request to enable it is submitted, not skipped.
\<close>

theorem lookup_keeps_entry_not_in_use_counterexample:
  "extractDisplayConfig (QuerySucceeded (sample_raw [path_off])) = Inr [entryB_off] \<and>
   \<not> inUse entryB_off \<and>
   targetModeBuffer entryB_off = None \<and>
   devicePathLookupForEnabledDisplayConfig [entryB_off] ''DISPLAY#B'' = Some entryB_off \<and>
   restoreDisplayConfig base64_decode request_B
     (QuerySucceeded (sample_raw [path_off])) QueryNotRun (Completed 0) =
     ([RestoreDisplayConfigCall [applyB] True], Inr ())"
  by (simp add: extract_off_only restore_defs entryB_off_def request_B_def applyB_def codec_defs)


text \<open>
  \<^bold>\<open>Claim C1, amended.\<close> The lookup maps a device path to the first live entry with that path
  among those that are not both in use and without a target mode buffer: entries not in
  use are kept. When \<^verbatim>\<open>missingEnabled\<close> is empty and every live entry with the device
  path of a desired-enabled item is in use without a target buffer, the path is absent
  from the lookup and the item is skipped silently: the restore does what it does on the
  request without that item, one native call with the records of the other items.
\<close>

theorem lookup_is_first_entry_not_in_use_without_target:
  "devicePathLookupForEnabledDisplayConfig conf k =
     find (\<lambda>e. devicePath e = k \<and> \<not> (inUse e \<and> targetModeBuffer e = None)) conf \<and>
   (extractDisplayConfig q1 = Inr conf \<and>
    length (missingEnabled args conf) = 0 \<and>
    config args = before @ EnabledItem dp pb smb tmb # after \<and>
    (\<forall>e \<in> set conf. devicePath e = dp \<longrightarrow> inUse e \<and> targetModeBuffer e = None)
    \<longrightarrow>
      devicePathLookupForEnabledDisplayConfig conf dp = None \<and>
      restoreDisplayConfig fromBase64 args q1 q2 r =
        restoreDisplayConfig fromBase64 (args\<lparr>config := before @ after\<rparr>) q1 q2 r \<and>
      fst (restoreDisplayConfig fromBase64 args q1 q2 r) =
        [RestoreDisplayConfigCall
           (List.map_filter
              (coerce_item fromBase64 (devicePathLookupForEnabledDisplayConfig conf))
              (before @ after))
           (restore_persistent args)])"
proof (intro conjI impI)
  show "devicePathLookupForEnabledDisplayConfig conf k =
     find (\<lambda>e. devicePath e = k \<and> \<not> (inUse e \<and> targetModeBuffer e = None)) conf"
    by (rule devicePathLookup_eq)
next
  assume a: "extractDisplayConfig q1 = Inr conf \<and>
    length (missingEnabled args conf) = 0 \<and>
    config args = before @ EnabledItem dp pb smb tmb # after \<and>
    (\<forall>e \<in> set conf. devicePath e = dp \<longrightarrow> inUse e \<and> targetModeBuffer e = None)"
  then have live: "extractDisplayConfig q1 = Inr conf"
    and items: "config args = before @ EnabledItem dp pb smb tmb # after"
    and excluded: "\<forall>e \<in> set conf. devicePath e = dp \<longrightarrow> inUse e \<and> targetModeBuffer e = None"
    by simp_all
  from a have sub: "set (devicePathNames args) \<subseteq> devicePath ` set conf"
    by (simp only: missingEnabled_empty_iff)
  have sub': "set (devicePathNames (args\<lparr>config := before @ after\<rparr>)) \<subseteq> devicePath ` set conf"
    using sub items by (auto simp: devicePathNames_def)
  show none: "devicePathLookupForEnabledDisplayConfig conf dp = None"
    using excluded by (simp add: devicePathLookup_eq find_None_iff)
  have skip: "List.map_filter
                (coerce_item fromBase64 (devicePathLookupForEnabledDisplayConfig conf))
                (config args) =
              List.map_filter
                (coerce_item fromBase64 (devicePathLookupForEnabledDisplayConfig conf))
                (before @ after)"
    using none by (simp add: items map_filter_append List.map_filter_simps)
  show "restoreDisplayConfig fromBase64 args q1 q2 r =
        restoreDisplayConfig fromBase64 (args\<lparr>config := before @ after\<rparr>) q1 q2 r"
    using restore_exact [OF live sub, of fromBase64 q2 r]
      restore_exact [OF live sub', of fromBase64 q2 r] skip
    by simp
  show "fst (restoreDisplayConfig fromBase64 args q1 q2 r) =
        [RestoreDisplayConfigCall
           (List.map_filter
              (coerce_item fromBase64 (devicePathLookupForEnabledDisplayConfig conf))
              (before @ after))
           (restore_persistent args)]"
    using restore_exact [OF live sub, of fromBase64 q2 r] skip
    by (simp add: win32_restoreDisplayConfig_def)
qed

theorem lookup_is_first_entry_not_in_use_without_target_witness:
  "devicePathLookupForEnabledDisplayConfig [entryB_off, entryB] ''DISPLAY#B'' = Some entryB_off \<and>
   devicePathLookupForEnabledDisplayConfig [entryA, entryB_untargeted] ''DISPLAY#A'' = Some entryA \<and>
   devicePathLookupForEnabledDisplayConfig [entryA, entryB_untargeted] ''DISPLAY#B'' = None \<and>
   restoreDisplayConfig base64_decode request_A_then_B
     (QuerySucceeded (sample_raw [pathA, path_target_is_source])) QueryNotRun (Completed 0) =
   restoreDisplayConfig base64_decode request_A
     (QuerySucceeded (sample_raw [pathA, path_target_is_source])) QueryNotRun (Completed 0) \<and>
   fst (restoreDisplayConfig base64_decode request_A_then_B
     (QuerySucceeded (sample_raw [pathA, path_target_is_source])) QueryNotRun (Completed 0)) =
     [RestoreDisplayConfigCall [applyA] True]"
proof -
  have h: "extractDisplayConfig (QuerySucceeded (sample_raw [pathA, path_target_is_source])) =
             Inr [entryA, entryB_untargeted] \<and>
    length (missingEnabled request_A_then_B [entryA, entryB_untargeted]) = 0 \<and>
    config request_A_then_B =
      [EnabledItem ''DISPLAY#A'' ''//4='' ''AQID'' ''Ag==''] @
      EnabledItem ''DISPLAY#B'' ''Cw=='' ''Aw=='' ''BA=='' # [] \<and>
    (\<forall>e \<in> set [entryA, entryB_untargeted].
       devicePath e = ''DISPLAY#B'' \<longrightarrow> inUse e \<and> targetModeBuffer e = None)"
    by (simp add: extract_A_untargeted restore_defs request_A_then_B_def entryA_def
          entryB_untargeted_def)
  have reduced: "request_A_then_B
      \<lparr>config := [EnabledItem ''DISPLAY#A'' ''//4='' ''AQID'' ''Ag==''] @ []\<rparr> = request_A"
    by (simp add: request_A_then_B_def request_A_def)
  have first: "find (\<lambda>e. devicePath e = ''DISPLAY#A'' \<and> \<not> (inUse e \<and> targetModeBuffer e = None))
                 [entryA, entryB_untargeted] = Some entryA"
    by (simp add: entryA_def)
  have rec: "List.map_filter
          (coerce_item base64_decode
             (devicePathLookupForEnabledDisplayConfig [entryA, entryB_untargeted]))
          ([EnabledItem ''DISPLAY#A'' ''//4='' ''AQID'' ''Ag==''] @ []) = [applyA]"
    by (simp add: List.map_filter_simps devicePathLookupForEnabledDisplayConfig_def
          entryA_def entryB_untargeted_def applyA_def codec_defs)
  have pers: "restore_persistent request_A_then_B = True"
    by (simp add: request_A_then_B_def)
  note general = lookup_is_first_entry_not_in_use_without_target
            [of "[entryA, entryB_untargeted]" "''DISPLAY#A''"
                "QuerySucceeded (sample_raw [pathA, path_target_is_source])"
                request_A_then_B "[EnabledItem ''DISPLAY#A'' ''//4='' ''AQID'' ''Ag=='']"
                "''DISPLAY#B''" "''Cw==''" "''Aw==''" "''BA==''" "[]"
                base64_decode QueryNotRun "Completed 0"]
  note skipped = general [THEN conjunct2, THEN mp, OF h]
  have c1: "devicePathLookupForEnabledDisplayConfig [entryA, entryB_untargeted] ''DISPLAY#A'' =
              Some entryA"
    using general [THEN conjunct1] first by (simp only:)
  have c2: "devicePathLookupForEnabledDisplayConfig [entryA, entryB_untargeted] ''DISPLAY#B'' = None"
    using skipped by (rule conjunct1)
  have c3: "restoreDisplayConfig base64_decode request_A_then_B
     (QuerySucceeded (sample_raw [pathA, path_target_is_source])) QueryNotRun (Completed 0) =
   restoreDisplayConfig base64_decode request_A
     (QuerySucceeded (sample_raw [pathA, path_target_is_source])) QueryNotRun (Completed 0)"
    using skipped [THEN conjunct2, THEN conjunct1] by (simp only: reduced)
  have c4: "fst (restoreDisplayConfig base64_decode request_A_then_B
     (QuerySucceeded (sample_raw [pathA, path_target_is_source])) QueryNotRun (Completed 0)) =
     [RestoreDisplayConfigCall [applyA] True]"
    using skipped [THEN conjunct2, THEN conjunct2] by (simp only: rec pers)
  have dup: "find (\<lambda>e. devicePath e = ''DISPLAY#B'' \<and> \<not> (inUse e \<and> targetModeBuffer e = None))
                 [entryB_off, entryB] = Some entryB_off"
    by (simp add: entryB_off_def)
  have c0: "devicePathLookupForEnabledDisplayConfig [entryB_off, entryB] ''DISPLAY#B'' =
              Some entryB_off"
    using lookup_is_first_entry_not_in_use_without_target
            [of "[entryB_off, entryB]" "''DISPLAY#B''", THEN conjunct1] dup
    by (simp only:)
  show ?thesis using c0 c1 c2 c3 c4 by (intro conjI)
qed


text \<open>
  \<^bold>\<open>Claim C2.\<close> When the extraction succeeds and the device path of every item with a
  \<^verbatim>\<open>targetModeBuffer\<close> is among the live device paths, \<^verbatim>\<open>restoreDisplayConfig\<close> makes
  exactly one native call, the raw apply, and never reaches the toggle: its outcome does
  not depend on the answer \<open>q2\<close> to a second query. The call carries, in request order, one
  record for each such item that resolves in the lookup of the live entries, that is,
  whose device path has a live entry the lookup keeps: one that is not both in use and
  without a target mode buffer. The record pairs the \<^verbatim>\<open>sourceConfigId\<close> and
  \<^verbatim>\<open>targetConfigId\<close> of the first such live entry with the three stored buffers decoded
  from base64. The promise resolves unless the addon reports a nonzero code.
\<close>

theorem exact_restore_applies_once:
  assumes live: "extractDisplayConfig q1 = Inr currentConfig"
    and present: "\<forall>item \<in> set (config args).
            item_targetModeBuffer item \<noteq> None \<longrightarrow>
            item_devicePath item \<in> devicePath ` set currentConfig"
  shows "restoreDisplayConfig fromBase64 args q1 q2 r =
         ([RestoreDisplayConfigCall
             (List.map_filter
                (\<lambda>item.
                   case item of
                     DisabledItem dp \<Rightarrow> None
                   | EnabledItem dp pb smb tmb \<Rightarrow>
                       (case find (\<lambda>e. devicePath e = dp \<and>
                                       \<not> (inUse e \<and> targetModeBuffer e = None))
                               currentConfig of
                          None \<Rightarrow> None
                        | Some liveEntry \<Rightarrow>
                            Some \<lparr>ar_sourceConfigId = sourceConfigId liveEntry,
                                  ar_targetConfigId = targetConfigId liveEntry,
                                  ar_pathBuffer = fromBase64 pb,
                                  ar_sourceModeBuffer = fromBase64 smb,
                                  ar_targetModeBuffer = fromBase64 tmb\<rparr>))
                (config args))
             (restore_persistent args)],
          case r of
            NotRun \<Rightarrow> Inr ()
          | Completed errorCode \<Rightarrow> if errorCode = 0 then Inr () else Inl (Win32Error errorCode))"
proof -
  have sub: "set (devicePathNames args) \<subseteq> devicePath ` set currentConfig"
    using present by (auto simp: devicePathNames_def)
  have item: "coerce_item fromBase64 (devicePathLookupForEnabledDisplayConfig currentConfig) =
      (\<lambda>item.
         case item of
           DisabledItem dp \<Rightarrow> None
         | EnabledItem dp pb smb tmb \<Rightarrow>
             (case find (\<lambda>e. devicePath e = dp \<and> \<not> (inUse e \<and> targetModeBuffer e = None))
                     currentConfig of
                None \<Rightarrow> None
              | Some liveEntry \<Rightarrow>
                  Some \<lparr>ar_sourceConfigId = sourceConfigId liveEntry,
                        ar_targetConfigId = targetConfigId liveEntry,
                        ar_pathBuffer = fromBase64 pb,
                        ar_sourceModeBuffer = fromBase64 smb,
                        ar_targetModeBuffer = fromBase64 tmb\<rparr>))"
  proof (rule ext)
    fix x
    show "coerce_item fromBase64 (devicePathLookupForEnabledDisplayConfig currentConfig) x =
      (case x of
           DisabledItem dp \<Rightarrow> None
         | EnabledItem dp pb smb tmb \<Rightarrow>
             (case find (\<lambda>e. devicePath e = dp \<and> \<not> (inUse e \<and> targetModeBuffer e = None))
                     currentConfig of
                None \<Rightarrow> None
              | Some liveEntry \<Rightarrow>
                  Some \<lparr>ar_sourceConfigId = sourceConfigId liveEntry,
                        ar_targetConfigId = targetConfigId liveEntry,
                        ar_pathBuffer = fromBase64 pb,
                        ar_sourceModeBuffer = fromBase64 smb,
                        ar_targetModeBuffer = fromBase64 tmb\<rparr>))"
      by (cases x) (simp_all add: devicePathLookup_eq split: option.splits)
  qed
  show ?thesis
    using restore_exact [OF live sub, of fromBase64 q2 r]
    by (simp only: item win32_restoreDisplayConfig_def)
qed

theorem exact_restore_applies_once_witness:
  "restoreDisplayConfig base64_decode request_A_then_B
     (QuerySucceeded (sample_raw [pathA, path_off])) QueryNotRun (Completed 0) =
     ([RestoreDisplayConfigCall [applyA, applyB] True], Inr ()) \<and>
   restoreDisplayConfig base64_decode request_A_enabled_B_disabled
     (QuerySucceeded (sample_raw [pathA, pathB])) QueryNotRun (Completed 5) =
     ([RestoreDisplayConfigCall [applyA] True], Inl (Win32Error 5))"
proof -
  have present1: "\<forall>item \<in> set (config request_A_then_B).
            item_targetModeBuffer item \<noteq> None \<longrightarrow>
            item_devicePath item \<in> devicePath ` set [entryA, entryB_off]"
    by (simp add: request_A_then_B_def entryA_def entryB_off_def)
  have present2: "\<forall>item \<in> set (config request_A_enabled_B_disabled).
            item_targetModeBuffer item \<noteq> None \<longrightarrow>
            item_devicePath item \<in> devicePath ` set [entryA, entryB]"
    by (simp add: request_A_enabled_B_disabled_def entryA_def)
  have first: "restoreDisplayConfig base64_decode request_A_then_B
     (QuerySucceeded (sample_raw [pathA, path_off])) QueryNotRun (Completed 0) =
     ([RestoreDisplayConfigCall [applyA, applyB] True], Inr ())"
    using exact_restore_applies_once
            [OF extract_A_off present1, of base64_decode QueryNotRun "Completed 0"]
    by (simp add: List.map_filter_simps request_A_then_B_def entryA_def entryB_off_def
          applyA_def applyB_def codec_defs)
  have second: "restoreDisplayConfig base64_decode request_A_enabled_B_disabled
     (QuerySucceeded (sample_raw [pathA, pathB])) QueryNotRun (Completed 5) =
     ([RestoreDisplayConfigCall [applyA] True], Inl (Win32Error 5))"
    using exact_restore_applies_once
            [OF extract_sample present2, of base64_decode QueryNotRun "Completed 5"]
    by (simp add: List.map_filter_simps request_A_enabled_B_disabled_def entryA_def entryB_def
          applyA_def codec_defs)
  show ?thesis using first second by (intro conjI)
qed

text \<open>
  \<^bold>\<open>Claim C3.\<close> When the extraction succeeds and some item with a \<^verbatim>\<open>targetModeBuffer\<close>
  names a device path that is not live, \<^verbatim>\<open>restoreDisplayConfig\<close> does what
  \<^verbatim>\<open>toggleEnabledDisplays\<close> does on the two lists built by the passes, and never calls
  the raw apply. Both lists hold live paths only and no path is in both. A path named
  both with and without a \<^verbatim>\<open>targetModeBuffer\<close> is never in the disable list: when it is
  in a list, which it is exactly when it is live, that list is the enable list.
\<close>

theorem fallback_toggles_live_paths_enable_first:
  assumes live: "extractDisplayConfig q1 = Inr currentConfig"
    and missing: "\<exists>item \<in> set (config args).
            item_targetModeBuffer item \<noteq> None \<and>
            item_devicePath item \<notin> devicePath ` set currentConfig"
  shows "restoreDisplayConfig fromBase64 args q1 q2 r =
         toggleEnabledDisplays
           \<lparr>persistent = restore_persistent args,
            enable = Some (fallback_enable args currentConfig),
            disable = Some (fallback_disable args currentConfig)\<rparr> q2 r \<and>
         (\<forall>c \<in> set (fst (restoreDisplayConfig fromBase64 args q1 q2 r)). is_toggle_call c) \<and>
         set (fallback_enable args currentConfig) \<subseteq> devicePath ` set currentConfig \<and>
         set (fallback_disable args currentConfig) \<subseteq> devicePath ` set currentConfig \<and>
         set (fallback_enable args currentConfig) \<inter> set (fallback_disable args currentConfig) = {} \<and>
         (\<forall>p pb smb tmb.
            EnabledItem p pb smb tmb \<in> set (config args) \<and>
            DisabledItem p \<in> set (config args) \<longrightarrow>
              p \<notin> set (fallback_disable args currentConfig) \<and>
              (p \<in> set (fallback_enable args currentConfig) \<or>
               p \<in> set (fallback_disable args currentConfig) \<longrightarrow>
                 p \<in> set (fallback_enable args currentConfig)) \<and>
              (p \<in> set (fallback_enable args currentConfig) \<longleftrightarrow>
                 p \<in> devicePath ` set currentConfig))"
proof -
  have "\<not> set (devicePathNames args) \<subseteq> devicePath ` set currentConfig"
    using missing by (force simp: devicePathNames_def)
  then have eq: "restoreDisplayConfig fromBase64 args q1 q2 r =
         toggleEnabledDisplays
           \<lparr>persistent = restore_persistent args,
            enable = Some (fallback_enable args currentConfig),
            disable = Some (fallback_disable args currentConfig)\<rparr> q2 r"
    by (rule restore_fallback [OF live])
  have calls: "\<forall>c \<in> set (fst (restoreDisplayConfig fromBase64 args q1 q2 r)). is_toggle_call c"
    unfolding eq by (rule toggleEnabledDisplays_calls)
  have en: "set (fallback_enable args currentConfig) \<subseteq> devicePath ` set currentConfig"
    by (simp add: set_fallback_enable)
  have dis: "set (fallback_disable args currentConfig) \<subseteq> devicePath ` set currentConfig"
    by (auto simp: set_fallback_disable)
  have disj: "set (fallback_enable args currentConfig) \<inter> set (fallback_disable args currentConfig) = {}"
    by (auto simp: set_fallback_enable set_fallback_disable)
  have named: "p \<in> set (devicePathNames args)"
    if "EnabledItem p pb smb tmb \<in> set (config args)" for p pb smb tmb
    using that by (force simp: devicePathNames_def)
  have prio: "\<forall>p pb smb tmb.
            EnabledItem p pb smb tmb \<in> set (config args) \<and>
            DisabledItem p \<in> set (config args) \<longrightarrow>
              p \<notin> set (fallback_disable args currentConfig) \<and>
              (p \<in> set (fallback_enable args currentConfig) \<or>
               p \<in> set (fallback_disable args currentConfig) \<longrightarrow>
                 p \<in> set (fallback_enable args currentConfig)) \<and>
              (p \<in> set (fallback_enable args currentConfig) \<longleftrightarrow>
                 p \<in> devicePath ` set currentConfig)"
    using named by (auto simp: set_fallback_enable set_fallback_disable)
  show ?thesis using eq calls en dis disj prio by (intro conjI)
qed

theorem fallback_toggles_live_paths_enable_first_witness:
  "restoreDisplayConfig base64_decode request_A_both_ways
     (QuerySucceeded (sample_raw [pathA, pathB])) (QuerySucceeded (sample_raw [pathA, pathB]))
     (Completed 0) =
   ([ToggleEnabledDisplaysCall [targetConfigId entryA] [targetConfigId entryB] True], Inr ()) \<and>
   fallback_enable request_A_both_ways [entryA, entryB] = [''DISPLAY#A''] \<and>
   fallback_disable request_A_both_ways [entryA, entryB] = [''DISPLAY#B''] \<and>
   fallback_enable request_C_both_ways [entryA, entryB] = [''DISPLAY#A''] \<and>
   fallback_disable request_C_both_ways [entryA, entryB] = [''DISPLAY#B'']"
proof -
  have en_c: "fallback_enable request_C_both_ways [entryA, entryB] = [''DISPLAY#A'']"
    by (simp add: restore_defs request_C_both_ways_def entryA_def entryB_def)
  have dis_c: "fallback_disable request_C_both_ways [entryA, entryB] = [''DISPLAY#B'']"
    by (simp add: restore_defs request_C_both_ways_def entryA_def entryB_def)
  have missing: "\<exists>item \<in> set (config request_A_both_ways).
            item_targetModeBuffer item \<noteq> None \<and>
            item_devicePath item \<notin> devicePath ` set [entryA, entryB]"
    by (simp add: request_A_both_ways_def entryA_def entryB_def)
  have en: "fallback_enable request_A_both_ways [entryA, entryB] = [''DISPLAY#A'']"
    by (simp add: restore_defs request_A_both_ways_def entryA_def entryB_def)
  have dis: "fallback_disable request_A_both_ways [entryA, entryB] = [''DISPLAY#B'']"
    by (simp add: restore_defs request_A_both_ways_def entryA_def entryB_def)
  have pers: "restore_persistent request_A_both_ways = True"
    by (simp add: request_A_both_ways_def)
  have tg: "toggleEnabledDisplays
     \<lparr>persistent = True, enable = Some [''DISPLAY#A''], disable = Some [''DISPLAY#B'']\<rparr>
     (QuerySucceeded (sample_raw [pathA, pathB])) (Completed 0) =
     ([ToggleEnabledDisplaysCall [targetConfigId entryA] [targetConfigId entryB] True], Inr ())"
    by (simp add: toggleEnabledDisplays_def extract_sample win32_toggleEnabledDisplays_def
          entryA_def entryB_def)
  have "restoreDisplayConfig base64_decode request_A_both_ways
     (QuerySucceeded (sample_raw [pathA, pathB])) (QuerySucceeded (sample_raw [pathA, pathB]))
     (Completed 0) =
     ([ToggleEnabledDisplaysCall [targetConfigId entryA] [targetConfigId entryB] True], Inr ())"
    using fallback_toggles_live_paths_enable_first
            [OF extract_sample missing, of base64_decode
               "QuerySucceeded (sample_raw [pathA, pathB])" "Completed 0", THEN conjunct1]
    by (simp only: en dis pers tg)
  then show ?thesis using en dis en_c dis_c by (intro conjI)
qed

section \<open>Claims about the toggle executor\<close>

text \<open>
  \<^bold>\<open>Claim C10.\<close> In a direct call of \<^verbatim>\<open>toggleEnabledDisplays\<close> with two arrays, when the
  extraction succeeds the native toggle is called once; each identifier list holds the
  \<^verbatim>\<open>targetConfigId\<close> of every live entry whose device path is in the corresponding array,
  in the order of the extraction. A live entry whose path is in both arrays has its
  identifier in both lists: nothing makes the lists exclusive here.
\<close>

theorem toggle_pushes_id_on_both_lists:
  assumes live: "extractDisplayConfig q = Inr displayConfig"
    and entry: "entry \<in> set displayConfig"
    and both: "devicePath entry \<in> set enablePaths" "devicePath entry \<in> set disablePaths"
  shows "toggleEnabledDisplays
           \<lparr>persistent = pers, enable = Some enablePaths, disable = Some disablePaths\<rparr> q r =
         win32_toggleEnabledDisplays
           (map targetConfigId (filter (\<lambda>e. devicePath e \<in> set enablePaths) displayConfig))
           (map targetConfigId (filter (\<lambda>e. devicePath e \<in> set disablePaths) displayConfig))
           pers r \<and>
         fst (toggleEnabledDisplays
           \<lparr>persistent = pers, enable = Some enablePaths, disable = Some disablePaths\<rparr> q r) =
         [ToggleEnabledDisplaysCall
           (map targetConfigId (filter (\<lambda>e. devicePath e \<in> set enablePaths) displayConfig))
           (map targetConfigId (filter (\<lambda>e. devicePath e \<in> set disablePaths) displayConfig))
           pers] \<and>
         targetConfigId entry \<in>
           set (map targetConfigId (filter (\<lambda>e. devicePath e \<in> set enablePaths) displayConfig)) \<and>
         targetConfigId entry \<in>
           set (map targetConfigId (filter (\<lambda>e. devicePath e \<in> set disablePaths) displayConfig))"
  using assms
  by (simp add: toggleEnabledDisplays_def toggle_loop_eq win32_toggleEnabledDisplays_def)

theorem toggle_pushes_id_on_both_lists_witness:
  "toggleEnabledDisplays
     \<lparr>persistent = True, enable = Some [''DISPLAY#B'', ''DISPLAY#A''],
      disable = Some [''DISPLAY#A'']\<rparr>
     (QuerySucceeded (sample_raw [pathA, pathB])) (Completed 0) =
   ([ToggleEnabledDisplaysCall [targetConfigId entryA, targetConfigId entryB]
       [targetConfigId entryA] True], Inr ())"
proof -
  have entry: "entryA \<in> set [entryA, entryB]" by simp
  have both: "devicePath entryA \<in> set [''DISPLAY#B'', ''DISPLAY#A'']"
    "devicePath entryA \<in> set [''DISPLAY#A'']"
    by (simp_all add: entryA_def)
  show ?thesis
    using toggle_pushes_id_on_both_lists [OF extract_sample entry both, of True "Completed 0"]
    by (simp add: win32_toggleEnabledDisplays_def entryA_def entryB_def)
qed

section \<open>Claims about the change-notification cache\<close>

text \<open>
  \<^bold>\<open>Claim C8.\<close> As stated, when the extraction of an update succeeds every subscribed
  callback is called with \<^verbatim>\<open>null\<close> and the new configuration, and when it fails every
  subscribed callback is called with the error. The loops over the callbacks have no
  guard around a call, and the loop of the success case is inside the \<^verbatim>\<open>try\<close>: below the
  extraction succeeds, the first of two listeners throws on the new configuration, and
  the second is never handed the configuration; both are handed the error thrown.
\<close>

theorem listener_throws_on_success_counterexample:
  "extractDisplayConfig (QuerySucceeded (sample_raw [pathA, pathB])) = Inr [entryA, entryB] \<and>
   displayChangeCallbacks sample_state = [1, 2] \<and>
   updateDisplayStateAndNotifyCallbacks first_listener_throws sample_state
     (QuerySucceeded (sample_raw [pathA, pathB])) =
     (sample_state\<lparr>currentDisplayConfig := Some [entryA, entryB]\<rparr>,
      [CalledWithConfig 1 [entryA, entryB],
       CalledWithError 1 (ListenerError ''listener failed''),
       CalledWithError 2 (ListenerError ''listener failed'')],
      Inr ()) \<and>
   CalledWithConfig 2 [entryA, entryB] \<notin>
     set (fst (snd (updateDisplayStateAndNotifyCallbacks first_listener_throws sample_state
       (QuerySucceeded (sample_raw [pathA, pathB])))))"
  by (simp add: updateDisplayStateAndNotifyCallbacks_def catch_block_def extract_sample
        sample_state_def)

text \<open>
  \<^bold>\<open>Claim C8, amended.\<close> When the extraction of an update fails with \<open>e\<close>, the cached
  configuration keeps the value it had, whatever the listeners do, and if no subscribed
  callback throws when called with \<open>e\<close>, every subscribed callback is called with \<open>e\<close>, once
  and in order, and nothing else is called. When the extraction succeeds, the cached
  configuration is replaced by the extracted one, whatever the listeners do, and if no
  subscribed callback throws when called with \<^verbatim>\<open>null\<close> and the new configuration, every
  subscribed callback is called so, once and in order, and nothing else is called.
\<close>

theorem update_keeps_cache_and_notifies_returning_listeners:
  "(extractDisplayConfig q = Inl e \<longrightarrow>
      currentDisplayConfig (fst (updateDisplayStateAndNotifyCallbacks throws st q)) =
        currentDisplayConfig st \<and>
      ((\<forall>callback \<in> set (displayChangeCallbacks st).
          throws (CalledWithError callback e) = None) \<longrightarrow>
       updateDisplayStateAndNotifyCallbacks throws st q =
         (st, map (\<lambda>callback. CalledWithError callback e) (displayChangeCallbacks st), Inr ()))) \<and>
   (extractDisplayConfig q = Inr extracted \<longrightarrow>
      currentDisplayConfig (fst (updateDisplayStateAndNotifyCallbacks throws st q)) =
        Some extracted \<and>
      ((\<forall>callback \<in> set (displayChangeCallbacks st).
          throws (CalledWithConfig callback extracted) = None) \<longrightarrow>
       updateDisplayStateAndNotifyCallbacks throws st q =
         (st\<lparr>currentDisplayConfig := Some extracted\<rparr>,
          map (\<lambda>callback. CalledWithConfig callback extracted) (displayChangeCallbacks st),
          Inr ())))"
proof (intro conjI impI)
  assume failed: "extractDisplayConfig q = Inl e"
  then show "currentDisplayConfig (fst (updateDisplayStateAndNotifyCallbacks throws st q)) =
        currentDisplayConfig st"
    by (simp add: updateDisplayStateAndNotifyCallbacks_def catch_block_state)
  assume "\<forall>callback \<in> set (displayChangeCallbacks st).
          throws (CalledWithError callback e) = None"
  then have "notify_loop throws (\<lambda>callback. CalledWithError callback e)
               (displayChangeCallbacks st) [] =
             ([] @ map (\<lambda>callback. CalledWithError callback e) (displayChangeCallbacks st), None)"
    by (rule notify_loop_all_return)
  then show "updateDisplayStateAndNotifyCallbacks throws st q =
         (st, map (\<lambda>callback. CalledWithError callback e) (displayChangeCallbacks st), Inr ())"
    using failed by (simp add: updateDisplayStateAndNotifyCallbacks_def catch_block_def)
next
  assume succeeded: "extractDisplayConfig q = Inr extracted"
  then show "currentDisplayConfig (fst (updateDisplayStateAndNotifyCallbacks throws st q)) =
        Some extracted"
    by (simp add: updateDisplayStateAndNotifyCallbacks_def Let_def catch_block_state
             split: prod.splits option.splits)
  assume "\<forall>callback \<in> set (displayChangeCallbacks st).
          throws (CalledWithConfig callback extracted) = None"
  then have "notify_loop throws (\<lambda>callback. CalledWithConfig callback extracted)
               (displayChangeCallbacks st) [] =
             ([] @ map (\<lambda>callback. CalledWithConfig callback extracted)
                     (displayChangeCallbacks st), None)"
    by (rule notify_loop_all_return)
  then show "updateDisplayStateAndNotifyCallbacks throws st q =
         (st\<lparr>currentDisplayConfig := Some extracted\<rparr>,
          map (\<lambda>callback. CalledWithConfig callback extracted) (displayChangeCallbacks st),
          Inr ())"
    using succeeded by (simp add: updateDisplayStateAndNotifyCallbacks_def Let_def)
qed

theorem update_keeps_cache_and_notifies_returning_listeners_witness:
  "updateDisplayStateAndNotifyCallbacks no_listener_throws sample_state (QueryFailed 31) =
     (sample_state,
      [CalledWithError 1 (Win32Error 31), CalledWithError 2 (Win32Error 31)], Inr ()) \<and>
   updateDisplayStateAndNotifyCallbacks no_listener_throws sample_state
     (QuerySucceeded (sample_raw [pathA, pathB])) =
     (sample_state\<lparr>currentDisplayConfig := Some [entryA, entryB]\<rparr>,
      [CalledWithConfig 1 [entryA, entryB], CalledWithConfig 2 [entryA, entryB]], Inr ()) \<and>
   currentDisplayConfig (fst (updateDisplayStateAndNotifyCallbacks first_listener_throws
     sample_state QueryNotRun)) = Some [entryA] \<and>
   currentDisplayConfig (fst (updateDisplayStateAndNotifyCallbacks first_listener_throws
     sample_state (QuerySucceeded (sample_raw [pathA, pathB])))) = Some [entryA, entryB]"
proof -
  have f1: "extractDisplayConfig (QueryFailed 31) = Inl (Win32Error 31)"
    by (simp add: extractDisplayConfig_def)
  have f2: "extractDisplayConfig QueryNotRun = Inl TypeError"
    by (simp add: extractDisplayConfig_def)
  have quiet1: "\<forall>callback \<in> set (displayChangeCallbacks sample_state).
          no_listener_throws (CalledWithError callback (Win32Error 31)) = None"
    by simp
  have quiet2: "\<forall>callback \<in> set (displayChangeCallbacks sample_state).
          no_listener_throws (CalledWithConfig callback [entryA, entryB]) = None"
    by simp
  have callbacks: "displayChangeCallbacks sample_state = [1, 2]"
    and cached: "currentDisplayConfig sample_state = Some [entryA]"
    by (simp_all add: sample_state_def)
  have c1: "updateDisplayStateAndNotifyCallbacks no_listener_throws sample_state (QueryFailed 31) =
     (sample_state,
      [CalledWithError 1 (Win32Error 31), CalledWithError 2 (Win32Error 31)], Inr ())"
    using update_keeps_cache_and_notifies_returning_listeners
            [of "QueryFailed 31" "Win32Error 31" no_listener_throws sample_state,
             THEN conjunct1, THEN mp, OF f1, THEN conjunct2, THEN mp, OF quiet1]
    by (simp add: callbacks)
  have c2: "updateDisplayStateAndNotifyCallbacks no_listener_throws sample_state
     (QuerySucceeded (sample_raw [pathA, pathB])) =
     (sample_state\<lparr>currentDisplayConfig := Some [entryA, entryB]\<rparr>,
      [CalledWithConfig 1 [entryA, entryB], CalledWithConfig 2 [entryA, entryB]], Inr ())"
    using update_keeps_cache_and_notifies_returning_listeners
            [of "QuerySucceeded (sample_raw [pathA, pathB])" _ no_listener_throws sample_state
                "[entryA, entryB]",
             THEN conjunct2, THEN mp, OF extract_sample, THEN conjunct2, THEN mp, OF quiet2]
    by (simp add: callbacks)
  have c3: "currentDisplayConfig (fst (updateDisplayStateAndNotifyCallbacks first_listener_throws
     sample_state QueryNotRun)) = Some [entryA]"
    using update_keeps_cache_and_notifies_returning_listeners
            [of QueryNotRun TypeError first_listener_throws sample_state,
             THEN conjunct1, THEN mp, OF f2, THEN conjunct1]
    by (simp add: cached)
  have c4: "currentDisplayConfig (fst (updateDisplayStateAndNotifyCallbacks first_listener_throws
     sample_state (QuerySucceeded (sample_raw [pathA, pathB])))) = Some [entryA, entryB]"
    using update_keeps_cache_and_notifies_returning_listeners
            [of "QuerySucceeded (sample_raw [pathA, pathB])" _ first_listener_throws sample_state
                "[entryA, entryB]",
             THEN conjunct2, THEN mp, OF extract_sample, THEN conjunct1]
    by simp
  show ?thesis using c1 c2 c3 c4 by (intro conjI)
qed

end
